theory Spec2Isabelle
  imports Main "HOL-Library.Word"
begin

section \<open>Data model of the console plugin reconciler\<close>

text \<open>
  The reconciler of \<^verbatim>\<open>controllers/consoleplugin/consoleplugin_reconciler.go\<close> works on
  Kubernetes objects. Each object type keeps the fields the reconciler reads, and some
  fields it never reads, so that "no other field matters" can be stated.
\<close>

type_synonym int32 = "32 word"

text \<open>
  A Go \<^verbatim>\<open>map[string]string\<close> is the list of its entries, looked up with \<open>map_of\<close>. The
  order of the list is not part of the map: two maps are the same map (\<open>sameMap\<close>)
  when every key of either has the same value, or none, in both.
\<close>

type_synonym stringMap = "(string \<times> string) list"

definition sameMap :: "stringMap \<Rightarrow> stringMap \<Rightarrow> bool" where
  "sameMap m n = list_all (\<lambda>k. map_of m k = map_of n k) (map fst m @ map fst n)"

record objectMeta =
  om_Name :: string
  om_Namespace :: string
  om_Labels :: stringMap
  om_ResourceVersion :: string

record servicePort =
  sp_Name :: string
  sp_Port :: int32
  sp_Protocol :: string

record service =
  svc_Meta :: objectMeta
  svc_Type :: string
  svc_Ports :: "servicePort list"

record podTemplateSpec =
  pt_Annotations :: stringMap
  pt_Image :: string
  pt_Env :: "(string \<times> string) list"
  pt_Resources :: stringMap
  pt_Other :: string

record deployment =
  dep_Meta :: objectMeta
  dep_Replicas :: int32
  dep_Template :: podTemplateSpec
  dep_Status :: string

record horizontalPodAutoscaler =
  hpa_Meta :: objectMeta
  hpa_MinReplicas :: int32
  hpa_MaxReplicas :: int32

text \<open>
  \<^verbatim>\<open>ConfigMap.Data\<close> is a Go \<^verbatim>\<open>map[string]string\<close> that may be nil: a nil map is
  \<open>None\<close>, a non-nil map is \<open>Some m\<close>.
\<close>

record configMap =
  cm_Meta :: objectMeta
  cm_Data :: "stringMap option"

record consolePlugin =
  plg_Meta :: objectMeta
  plg_DisplayName :: string
  plg_ServiceName :: string
  plg_ServiceNamespace :: string
  plg_ServicePort :: int32

record console =
  con_ManagementState :: string
  con_Plugins :: "string list"

type_synonym serviceAccount = objectMeta
type_synonym serviceMonitor = objectMeta
type_synonym clusterRole = objectMeta
type_synonym clusterRoleBinding = objectMeta

datatype kind =
  DeploymentKind | ServiceKind | HPAKind | ServiceAccountKind | ConfigMapKind
  | ServiceMonitorKind | ConsolePluginKind | ConsoleKind

datatype obj =
  DeploymentObj deployment
  | ServiceObj service
  | HPAObj horizontalPodAutoscaler
  | ServiceAccountObj serviceAccount
  | ConfigMapObj configMap
  | ServiceMonitorObj serviceMonitor
  | ConsolePluginObj consolePlugin
  | ConsoleObj console

fun kindOf :: "obj \<Rightarrow> kind" where
  "kindOf (DeploymentObj _) = DeploymentKind"
| "kindOf (ServiceObj _) = ServiceKind"
| "kindOf (HPAObj _) = HPAKind"
| "kindOf (ServiceAccountObj _) = ServiceAccountKind"
| "kindOf (ConfigMapObj _) = ConfigMapKind"
| "kindOf (ServiceMonitorObj _) = ServiceMonitorKind"
| "kindOf (ConsolePluginObj _) = ConsolePluginKind"
| "kindOf (ConsoleObj _) = ConsoleKind"

text \<open>
  A Go \<^verbatim>\<open>error\<close> is a value; \<^verbatim>\<open>errors.IsNotFound\<close> tells the not-found status
  from every other error. A nil error is \<open>None\<close>.
\<close>

datatype error = ErrNotFound string | ErrOther string

fun IsNotFound :: "error \<Rightarrow> bool" where
  "IsNotFound (ErrNotFound _) = True"
| "IsNotFound (ErrOther _) = False"

subsection \<open>The desired specification\<close>

text \<open>
  Modelled from the spec: the type \<^verbatim>\<open>FlowCollectorHPA\<close> and \<^verbatim>\<open>helper.HPADisabled\<close> are
  not in the source. The spec only tells autoscaling enabled from disabled, so the
  autoscaler policy carries that flag and \<open>HPADisabled\<close> reads it.
\<close>

record flowCollectorHPA =
  as_Enabled :: bool
  as_MinReplicas :: int32
  as_MaxReplicas :: int32

definition HPADisabled :: "flowCollectorHPA \<Rightarrow> bool" where
  "HPADisabled spec = (\<not> as_Enabled spec)"

record pluginSpec =
  cp_Register :: bool
  cp_Port :: int32
  cp_Replicas :: int32
  cp_Autoscaler :: flowCollectorHPA

record flowCollectorLoki =
  loki_URL :: string
  loki_QuerierURL :: string
  loki_StatusURL :: string

record flowCollectorSpec =
  spec_Namespace :: string
  spec_ConsolePlugin :: pluginSpec
  spec_Loki :: flowCollectorLoki

record flowCollector =
  fc_Spec :: flowCollectorSpec

subsection \<open>Calls to the collaborators, and the world they act on\<close>

text \<open>
  Every call the reconciler makes to the cluster client, to the client helper or to the
  certificate watcher is recorded, in order, in the trace of the world. The log holds
  what the reconciler logs.
\<close>

datatype call =
  ClientGet kind
  | ClientUpdate obj
  | ClientDelete kind
  | CreateOwned obj
  | UpdateOwned obj obj
  | ReconcileClusterRole clusterRole
  | ReconcileClusterRoleBinding clusterRoleBinding
  | AnnotatePod podTemplateSpec
  | CheckDeploymentInProgress deployment

datatype logEntry =
  LogError error string
  | LogChanges string "string list"

record world =
  trace :: "call list"
  logs :: "logEntry list"

text \<open>
  Modelled from the spec: \<^verbatim>\<open>helper.ChangeReport\<close> is not in the source. The spec has it as
  an append-only list of reasons, created per resource kind, logged once and discarded.
\<close>

record changeReport =
  cr_Title :: string
  cr_Reasons :: "string list"

definition NewChangeReport :: "string \<Rightarrow> changeReport" where
  "NewChangeReport title = \<lparr>cr_Title = title, cr_Reasons = []\<rparr>"

definition Add :: "changeReport \<Rightarrow> string \<Rightarrow> changeReport" where
  "Add report reason = report\<lparr>cr_Reasons := cr_Reasons report @ [reason]\<rparr>"

definition LogIfNeeded :: "changeReport \<Rightarrow> world \<Rightarrow> world" where
  "LogIfNeeded report w =
     (if cr_Reasons report = [] then w
      else w\<lparr>logs := logs w @ [LogChanges (cr_Title report) (cr_Reasons report)]\<rparr>)"

text \<open>
  The builder is an external collaborator: pure functions of the desired specification
  it was built from. Its functions are the fields of a record.
\<close>

record builder =
  b_serviceAccount :: serviceAccount
  b_clusterRoleBinding :: clusterRoleBinding
  b_consolePlugin :: consolePlugin
  b_configMap :: "configMap \<times> string"
  b_deployment :: "string \<Rightarrow> deployment"
  b_service :: "service option \<Rightarrow> service"
  b_serviceMonitor :: serviceMonitor
  b_autoScaler :: horizontalPodAutoscaler

text \<open>
  The collaborators of one pass. The cluster answers each read (\<open>get...\<close>) and each
  write or helper call (\<open>outcome\<close>); the certificate watcher annotates a pod template
  or fails. The constants of package \<^verbatim>\<open>constants\<close>, the constructor of the builder and
  the comparators of package \<^verbatim>\<open>helper\<close> are not in the source and are parameters too
  (\<open>newBuilder\<close> takes the namespace, the image and the desired specification; the
  certificate watcher it is also given is \<open>certAnnotate\<close> here). Within one pass no
  object is read after it was written, so an answer per call covers every behaviour of
  the cluster.
\<close>

record collaborators =
  PluginName :: string
  configMapName :: string
  getDeployment :: "error + deployment"
  getService :: "error + service"
  getHPA :: "error + horizontalPodAutoscaler"
  getServiceAccount :: "error + serviceAccount"
  getConfigMap :: "error + configMap"
  getServiceMonitor :: "error + serviceMonitor"
  getConsolePlugin :: "error + consolePlugin"
  getConsole :: "error + console"
  outcome :: "call \<Rightarrow> error option"
  certAnnotate :: "podTemplateSpec \<Rightarrow> error + podTemplateSpec"
  newBuilder :: "string \<Rightarrow> string \<Rightarrow> flowCollectorSpec \<Rightarrow> builder"
  buildClusterRole :: clusterRole
  DeploymentChanged ::
    "deployment \<Rightarrow> deployment \<Rightarrow> string \<Rightarrow> bool \<Rightarrow> int32 \<Rightarrow> changeReport \<Rightarrow> bool \<times> changeReport"
  AutoScalerChanged ::
    "horizontalPodAutoscaler \<Rightarrow> flowCollectorHPA \<Rightarrow> changeReport \<Rightarrow> bool \<times> changeReport"
  ServiceMonitorChanged ::
    "obj \<Rightarrow> obj \<Rightarrow> changeReport \<Rightarrow> bool \<times> changeReport"

definition invoke :: "collaborators \<Rightarrow> call \<Rightarrow> world \<Rightarrow> error option \<times> world" where
  "invoke cl c w = (outcome cl c, w\<lparr>trace := trace w @ [c]\<rparr>)"

subsection \<open>The namespaced object manager\<close>

text \<open>
  Modelled from the spec: \<^verbatim>\<open>reconcilers.NamespacedObjectManager\<close> is not in the source.
  Section 4.1 of the spec gives its contract: \<open>AddManagedObject\<close> registers a kind under
  a name; \<open>FetchAll\<close> reads every registered kind, records not-found as "does not
  exist" and aborts on any other read error; \<open>Exists\<close> returns the cached flag;
  \<open>TryDelete\<close> deletes a resource if it currently exists, and its caller gets no
  result. The Go code finds a managed object by the pointer to its placeholder; each
  kind has one placeholder, so here the kind finds it.
\<close>

record managedObject =
  mo_Name :: string
  mo_Kind :: kind
  mo_Found :: bool

record namespacedObjectManager =
  Namespace :: string
  PrevNamespace :: string
  managedObjects :: "managedObject list"

record ownedObjects =
  own_deployment :: deployment
  own_service :: service
  own_hpa :: horizontalPodAutoscaler
  own_serviceAccount :: serviceAccount
  own_configMap :: configMap
  own_serviceMonitor :: serviceMonitor

text \<open>
  Modelled from the spec: \<^verbatim>\<open>NewNamespacedObjectManager\<close> and \<^verbatim>\<open>AddManagedObject\<close> are
  not in the source. A new manager has no kind registered; a kind is registered under a
  name, as not yet found.
\<close>

definition NewNamespacedObjectManager :: "string \<Rightarrow> string \<Rightarrow> namespacedObjectManager" where
  "NewNamespacedObjectManager ns prevNS =
     \<lparr>Namespace = ns, PrevNamespace = prevNS, managedObjects = []\<rparr>"

definition AddManagedObject ::
  "string \<Rightarrow> kind \<Rightarrow> namespacedObjectManager \<Rightarrow> namespacedObjectManager" where
  "AddManagedObject name k m =
     m\<lparr>managedObjects := managedObjects m @ [\<lparr>mo_Name = name, mo_Kind = k, mo_Found = False\<rparr>]\<rparr>"

text \<open>
  Modelled from the spec: \<^verbatim>\<open>Exists\<close> is not in the source. It returns the cached
  existence flag, without a call to the cluster; a kind that is not registered does not
  exist.
\<close>

fun lookupFound :: "managedObject list \<Rightarrow> kind \<Rightarrow> bool" where
  "lookupFound [] k = False"
| "lookupFound (m # ms) k = (if mo_Kind m = k then mo_Found m else lookupFound ms k)"

definition Exists :: "namespacedObjectManager \<Rightarrow> kind \<Rightarrow> bool" where
  "Exists m k = lookupFound (managedObjects m) k"

text \<open>
  Modelled from the spec: \<^verbatim>\<open>TryDelete\<close> is not in the source. It deletes the resource
  if it is cached as existing; the answer of the cluster, not-found included, is not
  handed to the caller.
\<close>

definition TryDelete :: "collaborators \<Rightarrow> namespacedObjectManager \<Rightarrow> kind \<Rightarrow> world \<Rightarrow> world" where
  "TryDelete cl m k w = (if Exists m k then snd (invoke cl (ClientDelete k) w) else w)"

subsection \<open>The reconciler\<close>

text \<open>
  Modelled from the spec: \<^verbatim>\<open>discover.AvailableAPIs\<close> is not in the source. The spec has
  capability discovery as a boolean query, fixed at start-up.
\<close>

record availableAPIs =
  api_svcMonitor :: bool

definition HasSvcMonitor :: "availableAPIs \<Rightarrow> bool" where
  "HasSvcMonitor a = api_svcMonitor a"

record CPReconciler =
  nobjMngr :: namespacedObjectManager
  owned :: ownedObjects
  r_image :: string
  availableAPIs :: availableAPIs

text \<open>
  \<^verbatim>\<open>NewReconciler\<close>: the owned objects start as zero values; five kinds are always
  registered with the object manager, the service monitor only when the cluster has
  that API.
\<close>

definition zeroMeta :: objectMeta where
  "zeroMeta = \<lparr>om_Name = [], om_Namespace = [], om_Labels = [], om_ResourceVersion = []\<rparr>"

definition zeroTemplate :: podTemplateSpec where
  "zeroTemplate =
     \<lparr>pt_Annotations = [], pt_Image = [], pt_Env = [], pt_Resources = [],
      pt_Other = []\<rparr>"

definition zeroConsolePlugin :: consolePlugin where
  "zeroConsolePlugin =
     \<lparr>plg_Meta = zeroMeta, plg_DisplayName = [], plg_ServiceName = [],
      plg_ServiceNamespace = [], plg_ServicePort = 0\<rparr>"

definition zeroOwned :: ownedObjects where
  "zeroOwned =
     \<lparr>own_deployment =
        \<lparr>dep_Meta = zeroMeta, dep_Replicas = 0, dep_Template = zeroTemplate, dep_Status = []\<rparr>,
      own_service = \<lparr>svc_Meta = zeroMeta, svc_Type = [], svc_Ports = []\<rparr>,
      own_hpa = \<lparr>hpa_Meta = zeroMeta, hpa_MinReplicas = 0, hpa_MaxReplicas = 0\<rparr>,
      own_serviceAccount = zeroMeta,
      own_configMap = \<lparr>cm_Meta = zeroMeta, cm_Data = None\<rparr>,
      own_serviceMonitor = zeroMeta\<rparr>"

definition NewReconciler ::
  "collaborators \<Rightarrow> string \<Rightarrow> string \<Rightarrow> string \<Rightarrow> availableAPIs \<Rightarrow> CPReconciler" where
  "NewReconciler cl ns prevNS imageName apis =
     (let m0 = NewNamespacedObjectManager ns prevNS;
          m1 = AddManagedObject (PluginName cl) DeploymentKind m0;
          m2 = AddManagedObject (PluginName cl) ServiceKind m1;
          m3 = AddManagedObject (PluginName cl) HPAKind m2;
          m4 = AddManagedObject (PluginName cl) ServiceAccountKind m3;
          m5 = AddManagedObject (configMapName cl) ConfigMapKind m4;
          m6 = (if HasSvcMonitor apis
                then AddManagedObject (PluginName cl) ServiceMonitorKind m5 else m5)
      in \<lparr>nobjMngr = m6, owned = zeroOwned, r_image = imageName, availableAPIs = apis\<rparr>)"

text \<open>
  Modelled from the spec: \<^verbatim>\<open>FetchAll\<close> is not in the source. It makes one read per
  registered kind, in the order of registration, into the placeholder of that kind;
  not-found is recorded as "does not exist", any other error ends the fetch with that
  error.
\<close>

fun fetchInto :: "collaborators \<Rightarrow> kind \<Rightarrow> ownedObjects \<Rightarrow> error + ownedObjects" where
  "fetchInto cl DeploymentKind ow = map_sum id (\<lambda>x. ow\<lparr>own_deployment := x\<rparr>) (getDeployment cl)"
| "fetchInto cl ServiceKind ow = map_sum id (\<lambda>x. ow\<lparr>own_service := x\<rparr>) (getService cl)"
| "fetchInto cl HPAKind ow = map_sum id (\<lambda>x. ow\<lparr>own_hpa := x\<rparr>) (getHPA cl)"
| "fetchInto cl ServiceAccountKind ow =
     map_sum id (\<lambda>x. ow\<lparr>own_serviceAccount := x\<rparr>) (getServiceAccount cl)"
| "fetchInto cl ConfigMapKind ow = map_sum id (\<lambda>x. ow\<lparr>own_configMap := x\<rparr>) (getConfigMap cl)"
| "fetchInto cl ServiceMonitorKind ow =
     map_sum id (\<lambda>x. ow\<lparr>own_serviceMonitor := x\<rparr>) (getServiceMonitor cl)"
| "fetchInto cl ConsolePluginKind ow = map_sum id (\<lambda>x. ow) (getConsolePlugin cl)"
| "fetchInto cl ConsoleKind ow = map_sum id (\<lambda>x. ow) (getConsole cl)"

fun FetchAll_objs ::
  "collaborators \<Rightarrow> managedObject list \<Rightarrow> ownedObjects \<Rightarrow> world \<Rightarrow>
   error option \<times> managedObject list \<times> ownedObjects \<times> world" where
  "FetchAll_objs cl [] ow w = (None, [], ow, w)"
| "FetchAll_objs cl (m # ms) ow w =
     (case fetchInto cl (mo_Kind m) ow of
        Inl err \<Rightarrow>
          (if IsNotFound err then
             (case FetchAll_objs cl ms ow (w\<lparr>trace := trace w @ [ClientGet (mo_Kind m)]\<rparr>) of
                (e, ms', ow', w') \<Rightarrow> (e, m\<lparr>mo_Found := False\<rparr> # ms', ow', w'))
           else (Some err, m # ms, ow, w\<lparr>trace := trace w @ [ClientGet (mo_Kind m)]\<rparr>))
      | Inr ow1 \<Rightarrow>
          (case FetchAll_objs cl ms ow1 (w\<lparr>trace := trace w @ [ClientGet (mo_Kind m)]\<rparr>) of
             (e, ms', ow', w') \<Rightarrow> (e, m\<lparr>mo_Found := True\<rparr> # ms', ow', w')))"

definition FetchAll ::
  "collaborators \<Rightarrow> CPReconciler \<Rightarrow> world \<Rightarrow> error option \<times> CPReconciler \<times> world" where
  "FetchAll cl r w =
     (case FetchAll_objs cl (managedObjects (nobjMngr r)) (owned r) w of
        (e, ms', ow', w') \<Rightarrow>
          (e, r\<lparr>nobjMngr := (nobjMngr r)\<lparr>managedObjects := ms'\<rparr>, owned := ow'\<rparr>, w'))"

text \<open>
  Modelled from the spec: \<^verbatim>\<open>helper.ContainsString\<close> and \<^verbatim>\<open>helper.RemoveAllStrings\<close> are
  not in the source. The spec has the registration as membership of the unit's name in
  a list of names, and the removal as removing the name.
\<close>

definition ContainsString :: "string list \<Rightarrow> string \<Rightarrow> bool" where
  "ContainsString strs search = (search \<in> set strs)"

definition RemoveAllStrings :: "string list \<Rightarrow> string \<Rightarrow> string list" where
  "RemoveAllStrings strs search = filter (\<lambda>s. s \<noteq> search) strs"

text \<open>\<^verbatim>\<open>checkAutoPatch\<close>: the read of the Console resource named "cluster" comes first.\<close>

definition checkAutoPatch ::
  "collaborators \<Rightarrow> flowCollector \<Rightarrow> world \<Rightarrow> error option \<times> world" where
  "checkAutoPatch cl desired w =
     (case getConsole cl of
        Inl err \<Rightarrow>
          (if cp_Register (spec_ConsolePlugin (fc_Spec desired)) then
             (None, w\<lparr>trace := trace w @ [ClientGet ConsoleKind],
                      logs := logs w @ [LogError err
                        ''Could not get the Console Operator resource for plugin registration. Please register manually.'']\<rparr>)
           else (None, w\<lparr>trace := trace w @ [ClientGet ConsoleKind]\<rparr>))
      | Inr console \<Rightarrow>
          (let registered = ContainsString (con_Plugins console) (PluginName cl) in
           if cp_Register (spec_ConsolePlugin (fc_Spec desired)) \<and> \<not> registered then
             invoke cl
               (ClientUpdate (ConsoleObj (console\<lparr>con_Plugins := con_Plugins console @ [PluginName cl]\<rparr>)))
               (w\<lparr>trace := trace w @ [ClientGet ConsoleKind]\<rparr>)
           else if \<not> cp_Register (spec_ConsolePlugin (fc_Spec desired)) \<and> registered then
             invoke cl
               (ClientUpdate (ConsoleObj
                  (console\<lparr>con_Plugins := RemoveAllStrings (con_Plugins console) (PluginName cl)\<rparr>)))
               (w\<lparr>trace := trace w @ [ClientGet ConsoleKind]\<rparr>)
           else (None, w\<lparr>trace := trace w @ [ClientGet ConsoleKind]\<rparr>)))"

definition reconcilePermissions ::
  "collaborators \<Rightarrow> CPReconciler \<Rightarrow> builder \<Rightarrow> world \<Rightarrow> error option \<times> world" where
  "reconcilePermissions cl r b w =
     (if \<not> Exists (nobjMngr r) ServiceAccountKind then
        invoke cl (CreateOwned (ServiceAccountObj (b_serviceAccount b))) w
      else
        (case invoke cl (ReconcileClusterRole (buildClusterRole cl)) w of
           (Some err, w1) \<Rightarrow> (Some err, w1)
         | (None, w1) \<Rightarrow>
             (case invoke cl (ReconcileClusterRoleBinding (b_clusterRoleBinding b)) w1 of
                (Some err, w2) \<Rightarrow> (Some err, w2)
              | (None, w2) \<Rightarrow> (None, w2))))"

definition pluginNeedsUpdate :: "consolePlugin \<Rightarrow> pluginSpec \<Rightarrow> bool" where
  "pluginNeedsUpdate plg desired = (plg_ServicePort plg \<noteq> cp_Port desired)"

text \<open>
  \<^verbatim>\<open>reconcilePlugin\<close>: after the read, \<open>pluginExists\<close> and \<open>oldPlg\<close> decide between
  create, update and nothing.
\<close>

definition reconcilePlugin_write ::
  "collaborators \<Rightarrow> builder \<Rightarrow> flowCollectorSpec \<Rightarrow> bool \<Rightarrow> consolePlugin \<Rightarrow> world \<Rightarrow>
   error option \<times> world" where
  "reconcilePlugin_write cl b desired pluginExists oldPlg w =
     (if \<not> pluginExists then
        (case invoke cl (CreateOwned (ConsolePluginObj (b_consolePlugin b))) w of
           (Some err, w') \<Rightarrow> (Some err, w')
         | (None, w') \<Rightarrow> (None, w'))
      else if pluginNeedsUpdate oldPlg (spec_ConsolePlugin desired) then
        (case invoke cl
                (UpdateOwned (ConsolePluginObj oldPlg) (ConsolePluginObj (b_consolePlugin b))) w of
           (Some err, w') \<Rightarrow> (Some err, w')
         | (None, w') \<Rightarrow> (None, w'))
      else (None, w))"

definition reconcilePlugin ::
  "collaborators \<Rightarrow> builder \<Rightarrow> flowCollectorSpec \<Rightarrow> world \<Rightarrow> error option \<times> world" where
  "reconcilePlugin cl b desired w =
     (case getConsolePlugin cl of
        Inl err \<Rightarrow>
          (if IsNotFound err then
             reconcilePlugin_write cl b desired False zeroConsolePlugin
               (w\<lparr>trace := trace w @ [ClientGet ConsolePluginKind]\<rparr>)
           else (Some err, w\<lparr>trace := trace w @ [ClientGet ConsolePluginKind]\<rparr>))
      | Inr oldPlg \<Rightarrow>
          reconcilePlugin_write cl b desired True oldPlg
            (w\<lparr>trace := trace w @ [ClientGet ConsolePluginKind]\<rparr>))"

text \<open>
  \<^verbatim>\<open>reflect.DeepEqual\<close> on two values of type \<^verbatim>\<open>map[string]string\<close>: both nil, or both
  non-nil with the same keys and the same value at each key.
\<close>

definition DeepEqual :: "stringMap option \<Rightarrow> stringMap option \<Rightarrow> bool" where
  "DeepEqual a b =
     (case a of
        None \<Rightarrow> (case b of None \<Rightarrow> True | Some n \<Rightarrow> False)
      | Some m \<Rightarrow> (case b of None \<Rightarrow> False | Some n \<Rightarrow> sameMap m n))"

definition reconcileConfigMap ::
  "collaborators \<Rightarrow> CPReconciler \<Rightarrow> builder \<Rightarrow> flowCollectorSpec \<Rightarrow> world \<Rightarrow>
   (error + string) \<times> world" where
  "reconcileConfigMap cl r b desired w =
     (case b_configMap b of
        (newCM, configDigest) \<Rightarrow>
          (if \<not> Exists (nobjMngr r) ConfigMapKind then
             (case invoke cl (CreateOwned (ConfigMapObj newCM)) w of
                (Some err, w') \<Rightarrow> (Inl err, w')
              | (None, w') \<Rightarrow> (Inr configDigest, w'))
           else if \<not> DeepEqual (cm_Data newCM) (cm_Data (own_configMap (owned r))) then
             (case invoke cl
                     (UpdateOwned (ConfigMapObj (own_configMap (owned r))) (ConfigMapObj newCM)) w of
                (Some err, w') \<Rightarrow> (Inl err, w')
              | (None, w') \<Rightarrow> (Inr configDigest, w'))
           else (Inr configDigest, w)))"

text \<open>
  \<^verbatim>\<open>reconcileDeployment\<close>: the certificate watcher annotates the template of the new
  deployment first; its failure ends the step. The comparator is the collaborators'
  \<open>DeploymentChanged\<close>, called with the container name, \<open>HPADisabled\<close> of the desired
  autoscaler and the desired replica count.
\<close>

definition reconcileDeployment_body ::
  "collaborators \<Rightarrow> CPReconciler \<Rightarrow> builder \<Rightarrow> flowCollectorSpec \<Rightarrow> string \<Rightarrow> changeReport \<Rightarrow>
   world \<Rightarrow> error option \<times> changeReport \<times> world" where
  "reconcileDeployment_body cl r b desired cmDigest report w =
     (case certAnnotate cl (dep_Template (b_deployment b cmDigest)) of
        Inl err \<Rightarrow>
          (Some err, report,
           w\<lparr>trace := trace w @ [AnnotatePod (dep_Template (b_deployment b cmDigest))]\<rparr>)
      | Inr template \<Rightarrow>
          (let newDepl = (b_deployment b cmDigest)\<lparr>dep_Template := template\<rparr>;
               w1 = w\<lparr>trace := trace w @ [AnnotatePod (dep_Template (b_deployment b cmDigest))]\<rparr>
           in
           if \<not> Exists (nobjMngr r) DeploymentKind then
             (case invoke cl (CreateOwned (DeploymentObj newDepl)) w1 of
                (err, w') \<Rightarrow> (err, report, w'))
           else
             (case DeploymentChanged cl (own_deployment (owned r)) newDepl (PluginName cl)
                     (HPADisabled (cp_Autoscaler (spec_ConsolePlugin desired)))
                     (cp_Replicas (spec_ConsolePlugin desired)) report of
                (True, report') \<Rightarrow>
                  (case invoke cl
                          (UpdateOwned (DeploymentObj (own_deployment (owned r)))
                             (DeploymentObj newDepl)) w1 of
                     (err, w') \<Rightarrow> (err, report', w'))
              | (False, report') \<Rightarrow>
                  (None, report',
                   w1\<lparr>trace := trace w1 @ [CheckDeploymentInProgress (own_deployment (owned r))]\<rparr>))))"

definition reconcileDeployment ::
  "collaborators \<Rightarrow> CPReconciler \<Rightarrow> builder \<Rightarrow> flowCollectorSpec \<Rightarrow> string \<Rightarrow> world \<Rightarrow>
   error option \<times> world" where
  "reconcileDeployment cl r b desired cmDigest w =
     (case reconcileDeployment_body cl r b desired cmDigest
             (NewChangeReport ''Console deployment'') w of
        (err, report, w') \<Rightarrow> (err, LogIfNeeded report w'))"

text \<open>
  \<^verbatim>\<open>serviceNeedsUpdate\<close>: the loop over the ports of the existing service returns false
  at the first entry with the desired port and protocol TCP; after the loop the reason
  is added and the result is true.
\<close>

fun serviceNeedsUpdate_ports ::
  "servicePort list \<Rightarrow> pluginSpec \<Rightarrow> changeReport \<Rightarrow> bool \<times> changeReport" where
  "serviceNeedsUpdate_ports [] desired report = (True, Add report ''Port changed'')"
| "serviceNeedsUpdate_ports (port # rest) desired report =
     (if sp_Port port = cp_Port desired \<and> sp_Protocol port = ''TCP'' then (False, report)
      else serviceNeedsUpdate_ports rest desired report)"

definition serviceNeedsUpdate ::
  "service \<Rightarrow> pluginSpec \<Rightarrow> changeReport \<Rightarrow> bool \<times> changeReport" where
  "serviceNeedsUpdate svc desired report = serviceNeedsUpdate_ports (svc_Ports svc) desired report"

text \<open>
  Modelled from the spec: \<^verbatim>\<open>reconcilers.GenericReconcile\<close> is not in the source. By
  section 4.2 of the spec it has the create-if-absent, update-if-changed shape and takes
  the change predicate as an argument.
\<close>

definition GenericReconcile ::
  "collaborators \<Rightarrow> namespacedObjectManager \<Rightarrow> obj \<Rightarrow> obj \<Rightarrow> changeReport \<Rightarrow>
   (obj \<Rightarrow> obj \<Rightarrow> changeReport \<Rightarrow> bool \<times> changeReport) \<Rightarrow> world \<Rightarrow>
   error option \<times> changeReport \<times> world" where
  "GenericReconcile cl m old new report changeFunc w =
     (if \<not> Exists m (kindOf old) then
        (case invoke cl (CreateOwned new) w of (err, w') \<Rightarrow> (err, report, w'))
      else
        (case changeFunc old new report of
           (True, report') \<Rightarrow>
             (case invoke cl (UpdateOwned old new) w of (err, w') \<Rightarrow> (err, report', w'))
         | (False, report') \<Rightarrow> (None, report', w)))"

text \<open>
  \<^verbatim>\<open>reconcileService\<close>. The deferred \<^verbatim>\<open>report.LogIfNeeded\<close> runs at every return, on
  the report as it is then.
\<close>

definition reconcileService_body ::
  "collaborators \<Rightarrow> CPReconciler \<Rightarrow> builder \<Rightarrow> flowCollectorSpec \<Rightarrow> changeReport \<Rightarrow> world \<Rightarrow>
   error option \<times> changeReport \<times> world" where
  "reconcileService_body cl r b desired report w =
     (case
        (if \<not> Exists (nobjMngr r) ServiceKind then
           (case invoke cl (CreateOwned (ServiceObj (b_service b None))) w of
              (err, w') \<Rightarrow> (err, report, w'))
         else
           (case serviceNeedsUpdate (own_service (owned r)) (spec_ConsolePlugin desired) report of
              (True, report') \<Rightarrow>
                (case invoke cl
                        (UpdateOwned (ServiceObj (own_service (owned r)))
                           (ServiceObj (b_service b (Some (own_service (owned r)))))) w of
                   (err, w') \<Rightarrow> (err, report', w'))
            | (False, report') \<Rightarrow> (None, report', w)))
      of
        (Some err, report1, w1) \<Rightarrow> (Some err, report1, w1)
      | (None, report1, w1) \<Rightarrow>
          (if HasSvcMonitor (availableAPIs r) then
             GenericReconcile cl (nobjMngr r) (ServiceMonitorObj (own_serviceMonitor (owned r)))
               (ServiceMonitorObj (b_serviceMonitor b)) report1 (ServiceMonitorChanged cl) w1
           else (None, report1, w1)))"

definition reconcileService ::
  "collaborators \<Rightarrow> CPReconciler \<Rightarrow> builder \<Rightarrow> flowCollectorSpec \<Rightarrow> world \<Rightarrow>
   error option \<times> world" where
  "reconcileService cl r b desired w =
     (case reconcileService_body cl r b desired (NewChangeReport ''Console service'') w of
        (err, report, w') \<Rightarrow> (err, LogIfNeeded report w'))"

text \<open>
  \<^verbatim>\<open>reconcileHPA\<close>: with autoscaling disabled the step is \<open>TryDelete\<close> alone, whose
  outcome the step never sees; otherwise create or update.
\<close>

definition reconcileHPA_body ::
  "collaborators \<Rightarrow> CPReconciler \<Rightarrow> builder \<Rightarrow> flowCollectorSpec \<Rightarrow> changeReport \<Rightarrow> world \<Rightarrow>
   error option \<times> changeReport \<times> world" where
  "reconcileHPA_body cl r b desired report w =
     (if HPADisabled (cp_Autoscaler (spec_ConsolePlugin desired)) then
        (None, report, TryDelete cl (nobjMngr r) HPAKind w)
      else if \<not> Exists (nobjMngr r) HPAKind then
        (case invoke cl (CreateOwned (HPAObj (b_autoScaler b))) w of
           (err, w') \<Rightarrow> (err, report, w'))
      else
        (case AutoScalerChanged cl (own_hpa (owned r)) (cp_Autoscaler (spec_ConsolePlugin desired))
                report of
           (True, report') \<Rightarrow>
             (case invoke cl (UpdateOwned (HPAObj (own_hpa (owned r))) (HPAObj (b_autoScaler b))) w of
                (err, w') \<Rightarrow> (err, report', w'))
         | (False, report') \<Rightarrow> (None, report', w)))"

definition reconcileHPA ::
  "collaborators \<Rightarrow> CPReconciler \<Rightarrow> builder \<Rightarrow> flowCollectorSpec \<Rightarrow> world \<Rightarrow>
   error option \<times> world" where
  "reconcileHPA cl r b desired w =
     (case reconcileHPA_body cl r b desired (NewChangeReport ''Console autoscaler'') w of
        (err, report, w') \<Rightarrow> (err, LogIfNeeded report w'))"

definition querierURL :: "flowCollectorLoki \<Rightarrow> string" where
  "querierURL loki = (if loki_QuerierURL loki \<noteq> [] then loki_QuerierURL loki else loki_URL loki)"

definition statusURL :: "flowCollectorLoki \<Rightarrow> string" where
  "statusURL loki = (if loki_StatusURL loki \<noteq> [] then loki_StatusURL loki else querierURL loki)"

text \<open>
  \<^verbatim>\<open>Reconcile\<close>, the entry point of a pass: each step's error is returned at once. The
  result carries the reconciler (its cache was filled by \<open>FetchAll\<close>) and the world.
\<close>

definition Reconcile ::
  "collaborators \<Rightarrow> CPReconciler \<Rightarrow> flowCollector \<Rightarrow> world \<Rightarrow>
   error option \<times> CPReconciler \<times> world" where
  "Reconcile cl r desired w =
     (let ns = Namespace (nobjMngr r) in
      case FetchAll cl r w of
        (Some err, r1, w1) \<Rightarrow> (Some err, r1, w1)
      | (None, r1, w1) \<Rightarrow>
      (case checkAutoPatch cl desired w1 of
        (Some err, w2) \<Rightarrow> (Some err, r1, w2)
      | (None, w2) \<Rightarrow>
      (let b = newBuilder cl ns (r_image r1) (fc_Spec desired) in
       case reconcilePermissions cl r1 b w2 of
        (Some err, w3) \<Rightarrow> (Some err, r1, w3)
      | (None, w3) \<Rightarrow>
      (case reconcilePlugin cl b (fc_Spec desired) w3 of
        (Some err, w4) \<Rightarrow> (Some err, r1, w4)
      | (None, w4) \<Rightarrow>
      (case reconcileConfigMap cl r1 b (fc_Spec desired) w4 of
        (Inl err, w5) \<Rightarrow> (Some err, r1, w5)
      | (Inr cmDigest, w5) \<Rightarrow>
      (case reconcileDeployment cl r1 b (fc_Spec desired) cmDigest w5 of
        (Some err, w6) \<Rightarrow> (Some err, r1, w6)
      | (None, w6) \<Rightarrow>
      (case reconcileService cl r1 b (fc_Spec desired) w6 of
        (Some err, w7) \<Rightarrow> (Some err, r1, w7)
      | (None, w7) \<Rightarrow>
      (case reconcileHPA cl r1 b (fc_Spec desired) w7 of
        (Some err, w8) \<Rightarrow> (Some err, r1, w8)
      | (None, w8) \<Rightarrow> (None, r1, w8)))))))))"

subsection \<open>Observing a pass\<close>

text \<open>Counting the writes of one kind in a list of calls.\<close>

fun isUpdateOf :: "kind \<Rightarrow> call \<Rightarrow> bool" where
  "isUpdateOf k (UpdateOwned old new) = (kindOf new = k)"
| "isUpdateOf k (ClientUpdate ob) = (kindOf ob = k)"
| "isUpdateOf k _ = False"

fun isCreateOf :: "kind \<Rightarrow> call \<Rightarrow> bool" where
  "isCreateOf k (CreateOwned ob) = (kindOf ob = k)"
| "isCreateOf k _ = False"

definition updatesOf :: "kind \<Rightarrow> call list \<Rightarrow> call list" where
  "updatesOf k cs = filter (isUpdateOf k) cs"

definition createsOf :: "kind \<Rightarrow> call list \<Rightarrow> call list" where
  "createsOf k cs = filter (isCreateOf k) cs"

text \<open>The calls a step added to the trace: what follows the trace it started from.\<close>

definition newCalls :: "world \<Rightarrow> world \<Rightarrow> call list" where
  "newCalls w w' = drop (length (trace w)) (trace w')"

text \<open>
  \<open>issues P w w'\<close>: the world \<open>w'\<close> comes from \<open>w\<close> by more calls, each of which
  satisfies \<open>P\<close>.
\<close>

definition issues :: "(call \<Rightarrow> bool) \<Rightarrow> world \<Rightarrow> world \<Rightarrow> bool" where
  "issues P w w' = (take (length (trace w)) (trace w') = trace w \<and> list_all P (newCalls w w'))"

definition portMatches :: "pluginSpec \<Rightarrow> servicePort \<Rightarrow> bool" where
  "portMatches desired port = (sp_Port port = cp_Port desired \<and> sp_Protocol port = ''TCP'')"

subsection \<open>The deployment comparator of the spec\<close>

text \<open>
  Modelled from the spec: \<^verbatim>\<open>helper.DeploymentChanged\<close> is not in the source. By section
  4.2 of the spec a deployment is changed if any of the container image, the
  environment, the resource requests, the pod template annotations or the other
  template fields differ, or, when the replica count is to be checked, if the replica
  count differs from the desired one; a reason is added to the report when it is
  changed (the spec gives no wording for it). Metadata and status of the deployment are
  not compared.
\<close>

definition DeploymentChanged_spec ::
  "deployment \<Rightarrow> deployment \<Rightarrow> string \<Rightarrow> bool \<Rightarrow> int32 \<Rightarrow> changeReport \<Rightarrow> bool \<times> changeReport" where
  "DeploymentChanged_spec old new contName checkReplicas desiredReplicas report =
     (if pt_Image (dep_Template old) \<noteq> pt_Image (dep_Template new)
         \<or> pt_Env (dep_Template old) \<noteq> pt_Env (dep_Template new)
         \<or> \<not> sameMap (pt_Resources (dep_Template old)) (pt_Resources (dep_Template new))
         \<or> \<not> sameMap (pt_Annotations (dep_Template old)) (pt_Annotations (dep_Template new))
         \<or> pt_Other (dep_Template old) \<noteq> pt_Other (dep_Template new)
      then (True, Add report ''Pod changed'')
      else if checkReplicas \<and> dep_Replicas old \<noteq> desiredReplicas
      then (True, Add report ''Replicas changed'')
      else (False, report))"

subsection \<open>The pass as a sequence of steps\<close>

text \<open>
  Section 4.3 of the spec: a pass is eight steps in a fixed order, each terminal on
  error. A step works on the reconciler, the digest handed from the config-map step
  to the deployment step, and the world. \<open>runSteps\<close> runs a list of steps and stops
  at the first error.
\<close>

type_synonym pass = "CPReconciler \<times> string \<times> world"

fun runSteps :: "(pass \<Rightarrow> error option \<times> pass) list \<Rightarrow> pass \<Rightarrow> error option \<times> pass" where
  "runSteps [] p = (None, p)"
| "runSteps (s # ss) p =
     (case s p of (Some err, p') \<Rightarrow> (Some err, p') | (None, p') \<Rightarrow> runSteps ss p')"

definition fetchStep :: "collaborators \<Rightarrow> pass \<Rightarrow> error option \<times> pass" where
  "fetchStep cl p =
     (case p of (r, dg, w) \<Rightarrow> (case FetchAll cl r w of (e, r', w') \<Rightarrow> (e, (r', dg, w'))))"

definition registrationStep :: "collaborators \<Rightarrow> flowCollector \<Rightarrow> pass \<Rightarrow> error option \<times> pass" where
  "registrationStep cl desired p =
     (case p of (r, dg, w) \<Rightarrow> (case checkAutoPatch cl desired w of (e, w') \<Rightarrow> (e, (r, dg, w'))))"

definition permissionsStep :: "collaborators \<Rightarrow> builder \<Rightarrow> pass \<Rightarrow> error option \<times> pass" where
  "permissionsStep cl b p =
     (case p of (r, dg, w) \<Rightarrow> (case reconcilePermissions cl r b w of (e, w') \<Rightarrow> (e, (r, dg, w'))))"

definition pluginStep ::
  "collaborators \<Rightarrow> builder \<Rightarrow> flowCollectorSpec \<Rightarrow> pass \<Rightarrow> error option \<times> pass" where
  "pluginStep cl b desired p =
     (case p of (r, dg, w) \<Rightarrow> (case reconcilePlugin cl b desired w of (e, w') \<Rightarrow> (e, (r, dg, w'))))"

definition configMapStep ::
  "collaborators \<Rightarrow> builder \<Rightarrow> flowCollectorSpec \<Rightarrow> pass \<Rightarrow> error option \<times> pass" where
  "configMapStep cl b desired p =
     (case p of (r, dg, w) \<Rightarrow>
        (case reconcileConfigMap cl r b desired w of
           (Inl e, w') \<Rightarrow> (Some e, (r, dg, w'))
         | (Inr digest, w') \<Rightarrow> (None, (r, digest, w'))))"

definition deploymentStep ::
  "collaborators \<Rightarrow> builder \<Rightarrow> flowCollectorSpec \<Rightarrow> pass \<Rightarrow> error option \<times> pass" where
  "deploymentStep cl b desired p =
     (case p of (r, dg, w) \<Rightarrow>
        (case reconcileDeployment cl r b desired dg w of (e, w') \<Rightarrow> (e, (r, dg, w'))))"

definition serviceStep ::
  "collaborators \<Rightarrow> builder \<Rightarrow> flowCollectorSpec \<Rightarrow> pass \<Rightarrow> error option \<times> pass" where
  "serviceStep cl b desired p =
     (case p of (r, dg, w) \<Rightarrow>
        (case reconcileService cl r b desired w of (e, w') \<Rightarrow> (e, (r, dg, w'))))"

definition autoscalerStep ::
  "collaborators \<Rightarrow> builder \<Rightarrow> flowCollectorSpec \<Rightarrow> pass \<Rightarrow> error option \<times> pass" where
  "autoscalerStep cl b desired p =
     (case p of (r, dg, w) \<Rightarrow>
        (case reconcileHPA cl r b desired w of (e, w') \<Rightarrow> (e, (r, dg, w'))))"

definition passBuilder :: "collaborators \<Rightarrow> CPReconciler \<Rightarrow> flowCollector \<Rightarrow> builder" where
  "passBuilder cl r desired = newBuilder cl (Namespace (nobjMngr r)) (r_image r) (fc_Spec desired)"

definition passSteps ::
  "collaborators \<Rightarrow> CPReconciler \<Rightarrow> flowCollector \<Rightarrow> (pass \<Rightarrow> error option \<times> pass) list" where
  "passSteps cl r desired =
     [fetchStep cl,
      registrationStep cl desired,
      permissionsStep cl (passBuilder cl r desired),
      pluginStep cl (passBuilder cl r desired) (fc_Spec desired),
      configMapStep cl (passBuilder cl r desired) (fc_Spec desired),
      deploymentStep cl (passBuilder cl r desired) (fc_Spec desired),
      serviceStep cl (passBuilder cl r desired) (fc_Spec desired),
      autoscalerStep cl (passBuilder cl r desired) (fc_Spec desired)]"

text \<open>
  The step of the pass that issues a call, numbered as in section 4.3 of the spec:
  1 fetch, 2 registration, 3 permissions, 4 plugin registration resource, 5 config map,
  6 deployment, 7 service and service monitor, 8 autoscaler.
\<close>

fun writeStep :: "kind \<Rightarrow> nat" where
  "writeStep ConsoleKind = 2"
| "writeStep ServiceAccountKind = 3"
| "writeStep ConsolePluginKind = 4"
| "writeStep ConfigMapKind = 5"
| "writeStep DeploymentKind = 6"
| "writeStep ServiceKind = 7"
| "writeStep ServiceMonitorKind = 7"
| "writeStep HPAKind = 8"

fun stepOf :: "call \<Rightarrow> nat" where
  "stepOf (ClientGet k) = (if k = ConsoleKind then 2 else if k = ConsolePluginKind then 4 else 1)"
| "stepOf (ClientUpdate ob) = writeStep (kindOf ob)"
| "stepOf (ClientDelete k) = writeStep k"
| "stepOf (CreateOwned ob) = writeStep (kindOf ob)"
| "stepOf (UpdateOwned old new) = writeStep (kindOf new)"
| "stepOf (ReconcileClusterRole cr) = 3"
| "stepOf (ReconcileClusterRoleBinding crb) = 3"
| "stepOf (AnnotatePod t) = 6"
| "stepOf (CheckDeploymentInProgress d) = 6"

text \<open>Whether a call reads, writes or deletes an object of a kind.\<close>

fun touches :: "kind \<Rightarrow> call \<Rightarrow> bool" where
  "touches k (ClientGet k') = (k' = k)"
| "touches k (ClientUpdate ob) = (kindOf ob = k)"
| "touches k (ClientDelete k') = (k' = k)"
| "touches k (CreateOwned ob) = (kindOf ob = k)"
| "touches k (UpdateOwned old new) = (kindOf old = k \<or> kindOf new = k)"
| "touches k (ReconcileClusterRole cr) = False"
| "touches k (ReconcileClusterRoleBinding crb) = False"
| "touches k (AnnotatePod t) = False"
| "touches k (CheckDeploymentInProgress d) = (k = DeploymentKind)"

subsection \<open>Example inputs\<close>

text \<open>
  Desired specifications, a builder that depends on the specification, a fresh cluster
  (nothing of the plugin exists yet, the Console resource can be read) and a settled
  cluster (every object but the autoscaler exists as the builder makes it for port 9001
  and one replica), with the reconciler as \<open>NewReconciler\<close> makes it and as it is
  after a fetch on the settled cluster. \<open>exOutcome\<close> makes the calls of a given sort
  fail.
\<close>

definition exMeta :: "string \<Rightarrow> string \<Rightarrow> objectMeta" where
  "exMeta n ns = \<lparr>om_Name = n, om_Namespace = ns, om_Labels = [], om_ResourceVersion = []\<rparr>"

definition exSpec :: "bool \<Rightarrow> int32 \<Rightarrow> int32 \<Rightarrow> bool \<Rightarrow> flowCollectorSpec" where
  "exSpec register port replicas autoscaling =
     \<lparr>spec_Namespace = ''netobserv'',
      spec_ConsolePlugin =
        \<lparr>cp_Register = register, cp_Port = port, cp_Replicas = replicas,
         cp_Autoscaler = \<lparr>as_Enabled = autoscaling, as_MinReplicas = 1, as_MaxReplicas = 3\<rparr>\<rparr>,
      spec_Loki = \<lparr>loki_URL = ''http://loki:3100/'', loki_QuerierURL = [], loki_StatusURL = []\<rparr>\<rparr>"

definition exDesired :: "bool \<Rightarrow> int32 \<Rightarrow> int32 \<Rightarrow> bool \<Rightarrow> flowCollector" where
  "exDesired register port replicas autoscaling =
     \<lparr>fc_Spec = exSpec register port replicas autoscaling\<rparr>"

definition exService :: "string \<Rightarrow> int32 \<Rightarrow> service" where
  "exService ns port =
     \<lparr>svc_Meta = exMeta ''plugin'' ns, svc_Type = ''ClusterIP'',
      svc_Ports = [\<lparr>sp_Name = ''main'', sp_Port = port, sp_Protocol = ''TCP''\<rparr>]\<rparr>"

definition exConfigMap :: "string \<Rightarrow> configMap" where
  "exConfigMap ns =
     \<lparr>cm_Meta = exMeta ''console-plugin-config'' ns,
      cm_Data = Some [(''config.yaml'', ''frontend: {}'')]\<rparr>"

definition exDeployment :: "string \<Rightarrow> string \<Rightarrow> int32 \<Rightarrow> string \<Rightarrow> deployment" where
  "exDeployment ns img replicas digest =
     \<lparr>dep_Meta = exMeta ''plugin'' ns, dep_Replicas = replicas,
      dep_Template =
        \<lparr>pt_Annotations = [(''config-digest'', digest)], pt_Image = img, pt_Env = [],
         pt_Resources = [], pt_Other = []\<rparr>,
      dep_Status = []\<rparr>"

definition exConsolePlugin :: "string \<Rightarrow> int32 \<Rightarrow> consolePlugin" where
  "exConsolePlugin ns port =
     \<lparr>plg_Meta = exMeta ''plugin'' [], plg_DisplayName = ''NetObserv plugin'',
      plg_ServiceName = ''plugin'', plg_ServiceNamespace = ns, plg_ServicePort = port\<rparr>"

definition exAutoScaler :: "string \<Rightarrow> flowCollectorHPA \<Rightarrow> horizontalPodAutoscaler" where
  "exAutoScaler ns a =
     \<lparr>hpa_Meta = exMeta ''plugin'' ns, hpa_MinReplicas = as_MinReplicas a,
      hpa_MaxReplicas = as_MaxReplicas a\<rparr>"

definition exBuilder :: "string \<Rightarrow> string \<Rightarrow> flowCollectorSpec \<Rightarrow> builder" where
  "exBuilder ns img desired =
     \<lparr>b_serviceAccount = exMeta ''plugin'' ns,
      b_clusterRoleBinding = exMeta ''plugin-role'' [],
      b_consolePlugin = exConsolePlugin ns (cp_Port (spec_ConsolePlugin desired)),
      b_configMap = (exConfigMap ns, ''digest-1''),
      b_deployment = exDeployment ns img (cp_Replicas (spec_ConsolePlugin desired)),
      b_service = (\<lambda>old. exService ns (cp_Port (spec_ConsolePlugin desired))),
      b_serviceMonitor = exMeta ''plugin'' ns,
      b_autoScaler = exAutoScaler ns (cp_Autoscaler (spec_ConsolePlugin desired))\<rparr>"

definition exCertAnnotate :: "podTemplateSpec \<Rightarrow> error + podTemplateSpec" where
  "exCertAnnotate t = Inr (t\<lparr>pt_Annotations := (''loki-ca'', ''v1'') # pt_Annotations t\<rparr>)"

definition exFresh :: collaborators where
  "exFresh =
     \<lparr>PluginName = ''plugin'',
      configMapName = ''console-plugin-config'',
      getDeployment = Inl (ErrNotFound ''deployment''),
      getService = Inl (ErrNotFound ''service''),
      getHPA = Inl (ErrNotFound ''hpa''),
      getServiceAccount = Inl (ErrNotFound ''serviceaccount''),
      getConfigMap = Inl (ErrNotFound ''configmap''),
      getServiceMonitor = Inl (ErrNotFound ''servicemonitor''),
      getConsolePlugin = Inl (ErrNotFound ''consoleplugin''),
      getConsole = Inr \<lparr>con_ManagementState = ''Managed'', con_Plugins = [''other'']\<rparr>,
      outcome = (\<lambda>c. None),
      certAnnotate = exCertAnnotate,
      newBuilder = exBuilder,
      buildClusterRole = exMeta ''plugin-role'' [],
      DeploymentChanged =
        (\<lambda>old new contName checkReplicas replicas report.
           (dep_Template old \<noteq> dep_Template new, report)),
      AutoScalerChanged = (\<lambda>old a report. (False, report)),
      ServiceMonitorChanged = (\<lambda>old new report. (False, report))\<rparr>"

definition exAnnotated :: "deployment \<Rightarrow> deployment" where
  "exAnnotated d =
     d\<lparr>dep_Template :=
         (dep_Template d)\<lparr>pt_Annotations := (''loki-ca'', ''v1'') # pt_Annotations (dep_Template d)\<rparr>\<rparr>"

definition exSettled :: collaborators where
  "exSettled =
     exFresh
       \<lparr>getDeployment := Inr (exAnnotated (exDeployment ''netobserv'' ''plugin:v1'' 1 ''digest-1'')),
        getService := Inr (exService ''netobserv'' 9001),
        getHPA := Inl (ErrNotFound ''hpa''),
        getServiceAccount := Inr (exMeta ''plugin'' ''netobserv''),
        getConfigMap := Inr (exConfigMap ''netobserv''),
        getServiceMonitor := Inr (exMeta ''plugin'' ''netobserv''),
        getConsolePlugin := Inr (exConsolePlugin ''netobserv'' 9001),
        getConsole := Inr \<lparr>con_ManagementState = ''Managed'', con_Plugins = [''other'', ''plugin'']\<rparr>\<rparr>"

definition exOutcome :: "(call \<Rightarrow> bool) \<Rightarrow> call \<Rightarrow> error option" where
  "exOutcome fails c = (if fails c then Some (ErrOther ''refused'') else None)"

definition emptyWorld :: world where
  "emptyWorld = \<lparr>trace = [], logs = []\<rparr>"

definition exReconciler :: "bool \<Rightarrow> CPReconciler" where
  "exReconciler svcMonitor =
     NewReconciler exFresh ''netobserv'' [] ''plugin:v1'' \<lparr>api_svcMonitor = svcMonitor\<rparr>"

definition exFetched :: CPReconciler where
  "exFetched =
     \<lparr>nobjMngr =
        \<lparr>Namespace = ''netobserv'', PrevNamespace = [],
         managedObjects =
           [\<lparr>mo_Name = ''plugin'', mo_Kind = DeploymentKind, mo_Found = True\<rparr>,
            \<lparr>mo_Name = ''plugin'', mo_Kind = ServiceKind, mo_Found = True\<rparr>,
            \<lparr>mo_Name = ''plugin'', mo_Kind = HPAKind, mo_Found = False\<rparr>,
            \<lparr>mo_Name = ''plugin'', mo_Kind = ServiceAccountKind, mo_Found = True\<rparr>,
            \<lparr>mo_Name = ''console-plugin-config'', mo_Kind = ConfigMapKind, mo_Found = True\<rparr>,
            \<lparr>mo_Name = ''plugin'', mo_Kind = ServiceMonitorKind, mo_Found = True\<rparr>]\<rparr>,
      owned =
        \<lparr>own_deployment = exAnnotated (exDeployment ''netobserv'' ''plugin:v1'' 1 ''digest-1''),
         own_service = exService ''netobserv'' 9001,
         own_hpa = own_hpa zeroOwned,
         own_serviceAccount = exMeta ''plugin'' ''netobserv'',
         own_configMap = exConfigMap ''netobserv'',
         own_serviceMonitor = exMeta ''plugin'' ''netobserv''\<rparr>,
      r_image = ''plugin:v1'',
      availableAPIs = \<lparr>api_svcMonitor = True\<rparr>\<rparr>"

section \<open>Properties\<close>

subsection \<open>Unfolding the examples\<close>

lemmas ex_defs = exMeta_def exSpec_def exDesired_def exService_def exConfigMap_def
  exDeployment_def exConsolePlugin_def exAutoScaler_def exBuilder_def exCertAnnotate_def exFresh_def
  exAnnotated_def exSettled_def emptyWorld_def exReconciler_def exFetched_def exOutcome_def
  zeroOwned_def zeroMeta_def zeroTemplate_def zeroConsolePlugin_def

lemmas step_defs = Reconcile_def FetchAll_def checkAutoPatch_def reconcilePermissions_def
  reconcilePlugin_def reconcilePlugin_write_def reconcileConfigMap_def reconcileDeployment_def
  reconcileDeployment_body_def reconcileService_def reconcileService_body_def reconcileHPA_def
  reconcileHPA_body_def GenericReconcile_def TryDelete_def invoke_def Exists_def LogIfNeeded_def
  NewChangeReport_def Add_def NewReconciler_def NewNamespacedObjectManager_def AddManagedObject_def
  HasSvcMonitor_def HPADisabled_def ContainsString_def RemoveAllStrings_def DeepEqual_def
  sameMap_def pluginNeedsUpdate_def serviceNeedsUpdate_def
  newCalls_def updatesOf_def createsOf_def Let_def

lemmas pass_defs = passSteps_def passBuilder_def fetchStep_def registrationStep_def
  permissionsStep_def pluginStep_def configMapStep_def deploymentStep_def serviceStep_def
  autoscalerStep_def

subsection \<open>Traces\<close>

lemma trace_LogIfNeeded: "trace (LogIfNeeded report w) = trace w"
  by (simp add: LogIfNeeded_def)

lemma newCalls_append: "trace w' = trace w @ cs \<Longrightarrow> newCalls w w' = cs"
  by (simp add: newCalls_def)

lemma issues_iff: "issues P w w' = (\<exists>cs. trace w' = trace w @ cs \<and> list_all P cs)"
proof
  assume "issues P w w'"
  then have "trace w' = trace w @ newCalls w w'" and "list_all P (newCalls w w')"
    unfolding issues_def newCalls_def by (metis append_take_drop_id, simp)
  then show "\<exists>cs. trace w' = trace w @ cs \<and> list_all P cs" by blast
next
  assume "\<exists>cs. trace w' = trace w @ cs \<and> list_all P cs"
  then show "issues P w w'" by (auto simp: issues_def newCalls_def)
qed

lemma issues_refl: "issues P w w"
  by (simp add: issues_iff)

lemma issues_trans: "issues P w w1 \<Longrightarrow> issues P w1 w2 \<Longrightarrow> issues P w w2"
  by (auto simp: issues_iff)

lemma issues_mono: "issues P w w' \<Longrightarrow> (\<And>c. P c \<Longrightarrow> Q c) \<Longrightarrow> issues Q w w'"
  by (auto simp: issues_iff list_all_iff)

lemma issues_newCalls: "issues P w w' \<Longrightarrow> list_all P (newCalls w w')"
  by (simp add: issues_def)

lemma newCalls_trans:
  "issues P w w1 \<Longrightarrow> issues Q w1 w2 \<Longrightarrow> newCalls w w2 = newCalls w w1 @ newCalls w1 w2"
  by (auto simp: issues_iff newCalls_def)

subsection \<open>What each step issues\<close>

lemma FetchAll_objs_issues:
  "\<forall>m \<in> set ms. P (ClientGet (mo_Kind m)) \<Longrightarrow>
   issues P w (snd (snd (snd (FetchAll_objs cl ms ow w))))"
proof (induction ms arbitrary: ow w)
  case Nil
  show ?case by (simp add: issues_refl)
next
  case (Cons m ms)
  let ?w1 = "w\<lparr>trace := trace w @ [ClientGet (mo_Kind m)]\<rparr>"
  have step: "issues P w ?w1" using Cons.prems by (simp add: issues_iff)
  have rest: "issues P ?w1 (snd (snd (snd (FetchAll_objs cl ms ow' ?w1))))" for ow'
    using Cons.IH Cons.prems by simp
  show ?case
    using step issues_trans [OF step rest]
    by (auto simp: split_beta split: sum.splits)
qed

lemma FetchAll_objs_kinds:
  "map mo_Kind (fst (snd (FetchAll_objs cl ms ow w))) = map mo_Kind ms"
  by (induction ms arbitrary: ow w) (auto simp: split_beta split: sum.splits)

lemma FetchAll_issues:
  "\<forall>m \<in> set (managedObjects (nobjMngr r)). P (ClientGet (mo_Kind m)) \<Longrightarrow>
   issues P w (snd (snd (FetchAll cl r w)))"
  using FetchAll_objs_issues [of "managedObjects (nobjMngr r)" P w cl "owned r"]
  by (simp add: FetchAll_def split_beta)

lemma FetchAll_kinds:
  "map mo_Kind (managedObjects (nobjMngr (fst (snd (FetchAll cl r w))))) =
   map mo_Kind (managedObjects (nobjMngr r))"
  using FetchAll_objs_kinds [of cl "managedObjects (nobjMngr r)" "owned r" w]
  by (simp add: FetchAll_def split_beta)

lemma FetchAll_kinds_set:
  "mo_Kind ` set (managedObjects (nobjMngr (fst (snd (FetchAll cl r w))))) =
   mo_Kind ` set (managedObjects (nobjMngr r))"
  using FetchAll_kinds [of cl r w] by (metis set_map)

lemma FetchAll_static:
  "r_image (fst (snd (FetchAll cl r w))) = r_image r"
  "availableAPIs (fst (snd (FetchAll cl r w))) = availableAPIs r"
  "Namespace (nobjMngr (fst (snd (FetchAll cl r w)))) = Namespace (nobjMngr r)"
  by (simp_all add: FetchAll_def split_beta)

lemma checkAutoPatch_issues:
  "issues (\<lambda>c. stepOf c = 2 \<and> \<not> touches ServiceMonitorKind c) w (snd (checkAutoPatch cl desired w))"
  by (auto simp: checkAutoPatch_def invoke_def issues_iff Let_def split: sum.splits)

lemma reconcilePermissions_issues:
  "issues (\<lambda>c. stepOf c = 3 \<and> \<not> touches ServiceMonitorKind c) w (snd (reconcilePermissions cl r b w))"
  by (auto simp: reconcilePermissions_def invoke_def issues_iff split: option.splits)

lemma reconcilePlugin_issues:
  "issues (\<lambda>c. stepOf c = 4 \<and> \<not> touches ServiceMonitorKind c) w (snd (reconcilePlugin cl b desired w))"
  by (auto simp: reconcilePlugin_def reconcilePlugin_write_def invoke_def issues_iff
      split: sum.splits option.splits)

lemma reconcileConfigMap_issues:
  "issues (\<lambda>c. stepOf c = 5 \<and> \<not> touches ServiceMonitorKind c) w (snd (reconcileConfigMap cl r b desired w))"
  by (auto simp: reconcileConfigMap_def invoke_def issues_iff split: prod.splits option.splits)

lemma reconcileDeployment_issues:
  "issues (\<lambda>c. stepOf c = 6 \<and> \<not> touches ServiceMonitorKind c) w (snd (reconcileDeployment cl r b desired dg w))"
  by (auto simp: reconcileDeployment_def reconcileDeployment_body_def invoke_def issues_iff
      trace_LogIfNeeded Let_def split: sum.splits prod.splits bool.splits)

lemma reconcileService_issues:
  "issues (\<lambda>c. stepOf c = 7 \<and> (\<not> HasSvcMonitor (availableAPIs r) \<longrightarrow> \<not> touches ServiceMonitorKind c)) w
     (snd (reconcileService cl r b desired w))"
  by (auto simp: reconcileService_def reconcileService_body_def GenericReconcile_def invoke_def
      issues_iff trace_LogIfNeeded split: prod.splits bool.splits option.splits)

lemma reconcileHPA_issues:
  "issues (\<lambda>c. stepOf c = 8 \<and> \<not> touches ServiceMonitorKind c) w (snd (reconcileHPA cl r b desired w))"
  by (auto simp: reconcileHPA_def reconcileHPA_body_def TryDelete_def invoke_def issues_iff
      trace_LogIfNeeded split: prod.splits bool.splits)

subsection \<open>Running a list of steps\<close>

lemma runSteps_abort:
  "runSteps ss p = (Some err, p') \<Longrightarrow>
   \<exists>k<length ss. \<exists>q. runSteps (take k ss) p = (None, q) \<and> (ss ! k) q = (Some err, p')"
proof (induction ss arbitrary: p)
  case Nil
  then show ?case by simp
next
  case (Cons s ss)
  show ?case
  proof (cases "fst (s p)")
    case None
    then obtain p1 where sp: "s p = (None, p1)" by (cases "s p") simp
    with Cons.prems have "runSteps ss p1 = (Some err, p')" by simp
    from Cons.IH [OF this] obtain k q where
      k: "k < length ss" "runSteps (take k ss) p1 = (None, q)" "(ss ! k) q = (Some err, p')"
      by blast
    have "Suc k < length (s # ss)" using k(1) by simp
    moreover have "runSteps (take (Suc k) (s # ss)) p = (None, q)" using sp k(2) by simp
    moreover have "((s # ss) ! Suc k) q = (Some err, p')" using k(3) by simp
    ultimately show ?thesis by blast
  next
    case (Some e)
    then obtain p1 where sp: "s p = (Some e, p1)" by (cases "s p") simp
    with Cons.prems have "s p = (Some err, p')" by simp
    then have "runSteps (take 0 (s # ss)) p = (None, p) \<and> ((s # ss) ! 0) p = (Some err, p')" by simp
    then show ?thesis by (metis length_Cons zero_less_Suc)
  qed
qed

lemma sorted_stepOf_append:
  assumes "list_all (\<lambda>c. stepOf c = k) xs" and "list_all (\<lambda>c. k \<le> stepOf c) ys"
    and "sorted (map stepOf ys)"
  shows "sorted (map stepOf (xs @ ys))"
  using assms by (induction xs) (auto simp: list_all_iff)

lemma runSteps_sorted:
  assumes "\<And>i p. i < length ss \<Longrightarrow> I p \<Longrightarrow>
             issues (\<lambda>c. stepOf c = off + i) (snd (snd p)) (snd (snd (snd ((ss ! i) p))))
             \<and> I (snd ((ss ! i) p))"
    and "I p"
  shows "issues (\<lambda>c. off \<le> stepOf c) (snd (snd p)) (snd (snd (snd (runSteps ss p))))
         \<and> sorted (map stepOf (newCalls (snd (snd p)) (snd (snd (snd (runSteps ss p))))))"
  using assms
proof (induction ss arbitrary: p off)
  case Nil
  show ?case by (simp add: issues_refl newCalls_def)
next
  case (Cons s ss)
  let ?w = "snd (snd p)" and ?w1 = "snd (snd (snd (s p)))"
  have first: "issues (\<lambda>c. stepOf c = off) ?w ?w1" and inv: "I (snd (s p))"
    using Cons.prems(1) [of 0 p] Cons.prems(2) by simp_all
  have first': "issues (\<lambda>c. off \<le> stepOf c) ?w ?w1"
    by (rule issues_mono [OF first]) simp
  show ?case
  proof (cases "fst (s p)")
    case (Some e)
    then have "runSteps (s # ss) p = s p" by (cases "s p") simp
    moreover have "sorted (map stepOf (newCalls ?w ?w1))"
      using sorted_stepOf_append [OF issues_newCalls [OF first], of "[]"] by simp
    ultimately show ?thesis using first' by simp
  next
    case None
    then have run: "runSteps (s # ss) p = runSteps ss (snd (s p))" by (cases "s p") simp
    let ?w2 = "snd (snd (snd (runSteps ss (snd (s p)))))"
    have "\<And>i q. i < length ss \<Longrightarrow> I q \<Longrightarrow>
            issues (\<lambda>c. stepOf c = Suc off + i) (snd (snd q)) (snd (snd (snd ((ss ! i) q))))
            \<and> I (snd ((ss ! i) q))"
      using Cons.prems(1) [of "Suc i" for i] by simp
    from Cons.IH [OF this inv]
    have rest: "issues (\<lambda>c. Suc off \<le> stepOf c) ?w1 ?w2"
      and srt: "sorted (map stepOf (newCalls ?w1 ?w2))" by simp_all
    have rest': "issues (\<lambda>c. off \<le> stepOf c) ?w1 ?w2"
      by (rule issues_mono [OF rest]) simp
    have nc: "newCalls ?w ?w2 = newCalls ?w ?w1 @ newCalls ?w1 ?w2"
      by (rule newCalls_trans [OF first rest])
    have "sorted (map stepOf (newCalls ?w ?w2))"
      unfolding nc
      by (rule sorted_stepOf_append [OF issues_newCalls [OF first] issues_newCalls [OF rest'] srt])
    then show ?thesis using issues_trans [OF first' rest'] run by simp
  qed
qed

lemma runSteps_issues:
  assumes "\<And>i p. i < length ss \<Longrightarrow> I p \<Longrightarrow>
             issues P (snd (snd p)) (snd (snd (snd ((ss ! i) p)))) \<and> I (snd ((ss ! i) p))"
    and "I p"
  shows "issues P (snd (snd p)) (snd (snd (snd (runSteps ss p)))) \<and> I (snd (runSteps ss p))"
  using assms
proof (induction ss arbitrary: p)
  case Nil
  then show ?case by (simp add: issues_refl)
next
  case (Cons s ss)
  have first: "issues P (snd (snd p)) (snd (snd (snd (s p))))" and inv: "I (snd (s p))"
    using Cons.prems(1) [of 0 p] Cons.prems(2) by simp_all
  have "\<And>i q. i < length ss \<Longrightarrow> I q \<Longrightarrow>
          issues P (snd (snd q)) (snd (snd (snd ((ss ! i) q)))) \<and> I (snd ((ss ! i) q))"
    using Cons.prems(1) [of "Suc i" for i] by simp
  from Cons.IH [OF this inv]
  have rest: "issues P (snd (snd (snd (s p)))) (snd (snd (snd (runSteps ss (snd (s p))))))"
    and inv': "I (snd (runSteps ss (snd (s p))))" by simp_all
  show ?case
    using first inv inv' issues_trans [OF first rest]
    by (cases "s p") (auto split: option.splits)
qed

lemma runSteps_append:
  "runSteps (xs @ ys) p =
     (case runSteps xs p of (Some err, p') \<Rightarrow> (Some err, p') | (None, p') \<Rightarrow> runSteps ys p')"
  by (induction xs arbitrary: p) (auto split: prod.splits option.splits)

subsection \<open>The pass is its eight steps\<close>

lemma Reconcile_runSteps:
  "Reconcile cl r desired w =
     (case runSteps (passSteps cl r desired) (r, [], w) of (e, r', dg, w') \<Rightarrow> (e, r', w'))"
  by (simp add: Reconcile_def passSteps_def passBuilder_def fetchStep_def registrationStep_def
      permissionsStep_def pluginStep_def configMapStep_def deploymentStep_def serviceStep_def
      autoscalerStep_def Let_def split_beta FetchAll_static
      split: option.splits sum.splits)

lemma Reconcile_world:
  "snd (snd (Reconcile cl r fc w)) = snd (snd (snd (runSteps (passSteps cl r fc) (r, [], w))))"
  "fst (snd (Reconcile cl r fc w)) = fst (snd (runSteps (passSteps cl r fc) (r, [], w)))"
  "fst (Reconcile cl r fc w) = fst (runSteps (passSteps cl r fc) (r, [], w))"
  by (simp_all add: Reconcile_runSteps split_beta)

lemma length_passSteps: "length (passSteps cl r desired) = 8"
  by (simp add: passSteps_def)

lemma below_eight:
  "i < (8::nat) \<Longrightarrow> i = 0 \<or> i = 1 \<or> i = 2 \<or> i = 3 \<or> i = 4 \<or> i = 5 \<or> i = 6 \<or> i = 7"
  by arith

lemma step_world:
  "snd (snd (snd (fetchStep cl p))) = snd (snd (FetchAll cl (fst p) (snd (snd p))))"
  "snd (snd (snd (registrationStep cl fc p))) = snd (checkAutoPatch cl fc (snd (snd p)))"
  "snd (snd (snd (permissionsStep cl b p))) = snd (reconcilePermissions cl (fst p) b (snd (snd p)))"
  "snd (snd (snd (pluginStep cl b desired p))) = snd (reconcilePlugin cl b desired (snd (snd p)))"
  "snd (snd (snd (configMapStep cl b desired p))) =
     snd (reconcileConfigMap cl (fst p) b desired (snd (snd p)))"
  "snd (snd (snd (deploymentStep cl b desired p))) =
     snd (reconcileDeployment cl (fst p) b desired (fst (snd p)) (snd (snd p)))"
  "snd (snd (snd (serviceStep cl b desired p))) =
     snd (reconcileService cl (fst p) b desired (snd (snd p)))"
  "snd (snd (snd (autoscalerStep cl b desired p))) =
     snd (reconcileHPA cl (fst p) b desired (snd (snd p)))"
  by (simp_all add: fetchStep_def registrationStep_def permissionsStep_def pluginStep_def
      configMapStep_def deploymentStep_def serviceStep_def autoscalerStep_def split_beta
      split: sum.splits)

lemma step_reconciler:
  "fst (snd (fetchStep cl p)) = fst (snd (FetchAll cl (fst p) (snd (snd p))))"
  "fst (snd (registrationStep cl fc p)) = fst p"
  "fst (snd (permissionsStep cl b p)) = fst p"
  "fst (snd (pluginStep cl b desired p)) = fst p"
  "fst (snd (configMapStep cl b desired p)) = fst p"
  "fst (snd (deploymentStep cl b desired p)) = fst p"
  "fst (snd (serviceStep cl b desired p)) = fst p"
  "fst (snd (autoscalerStep cl b desired p)) = fst p"
  by (simp_all add: fetchStep_def registrationStep_def permissionsStep_def pluginStep_def
      configMapStep_def deploymentStep_def serviceStep_def autoscalerStep_def split_beta
      split: sum.splits)

lemma passSteps_in_order:
  assumes i: "i < length (passSteps cl r fc)"
    and inv: "ConsoleKind \<notin> mo_Kind ` set (managedObjects (nobjMngr (fst p)))
              \<and> ConsolePluginKind \<notin> mo_Kind ` set (managedObjects (nobjMngr (fst p)))"
  shows "issues (\<lambda>c. stepOf c = 1 + i) (snd (snd p)) (snd (snd (snd ((passSteps cl r fc ! i) p))))
         \<and> (ConsoleKind \<notin> mo_Kind ` set (managedObjects (nobjMngr (fst (snd ((passSteps cl r fc ! i) p)))))
            \<and> ConsolePluginKind \<notin> mo_Kind ` set (managedObjects (nobjMngr (fst (snd ((passSteps cl r fc ! i) p))))))"
proof -
  have fetch: "issues (\<lambda>c. stepOf c = 1) (snd (snd p)) (snd (snd (FetchAll cl (fst p) (snd (snd p)))))"
    by (rule FetchAll_issues) (use inv in \<open>auto simp: image_iff\<close>)
  note others =
    issues_mono [OF checkAutoPatch_issues, where Q = "\<lambda>c. stepOf c = 2"]
    issues_mono [OF reconcilePermissions_issues, where Q = "\<lambda>c. stepOf c = 3"]
    issues_mono [OF reconcilePlugin_issues, where Q = "\<lambda>c. stepOf c = 4"]
    issues_mono [OF reconcileConfigMap_issues, where Q = "\<lambda>c. stepOf c = 5"]
    issues_mono [OF reconcileDeployment_issues, where Q = "\<lambda>c. stepOf c = 6"]
    issues_mono [OF reconcileService_issues, where Q = "\<lambda>c. stepOf c = 7"]
    issues_mono [OF reconcileHPA_issues, where Q = "\<lambda>c. stepOf c = 8"]
  from i have "i < 8" by (simp add: length_passSteps)
  from below_eight [OF this] show ?thesis
    using fetch inv others
    by (elim disjE)
      (simp_all add: passSteps_def step_world step_reconciler FetchAll_kinds_set eval_nat_numeral)
qed

lemma passSteps_gated:
  assumes i: "i < length (passSteps cl r fc)"
    and inv: "\<not> HasSvcMonitor (availableAPIs (fst p))
              \<and> ServiceMonitorKind \<notin> mo_Kind ` set (managedObjects (nobjMngr (fst p)))"
  shows "issues (\<lambda>c. \<not> touches ServiceMonitorKind c) (snd (snd p))
           (snd (snd (snd ((passSteps cl r fc ! i) p))))
         \<and> (\<not> HasSvcMonitor (availableAPIs (fst (snd ((passSteps cl r fc ! i) p))))
            \<and> ServiceMonitorKind \<notin> mo_Kind ` set (managedObjects (nobjMngr (fst (snd ((passSteps cl r fc ! i) p))))))"
proof -
  have fetch: "issues (\<lambda>c. \<not> touches ServiceMonitorKind c) (snd (snd p))
                 (snd (snd (FetchAll cl (fst p) (snd (snd p)))))"
    by (rule FetchAll_issues) (use inv in \<open>auto simp: image_iff\<close>)
  have svc: "issues (\<lambda>c. \<not> touches ServiceMonitorKind c) w (snd (reconcileService cl (fst p) b desired w))"
    for b desired w
    by (rule issues_mono [OF reconcileService_issues]) (use inv in simp)
  note others =
    issues_mono [OF checkAutoPatch_issues, where Q = "\<lambda>c. \<not> touches ServiceMonitorKind c"]
    issues_mono [OF reconcilePermissions_issues, where Q = "\<lambda>c. \<not> touches ServiceMonitorKind c"]
    issues_mono [OF reconcilePlugin_issues, where Q = "\<lambda>c. \<not> touches ServiceMonitorKind c"]
    issues_mono [OF reconcileConfigMap_issues, where Q = "\<lambda>c. \<not> touches ServiceMonitorKind c"]
    issues_mono [OF reconcileDeployment_issues, where Q = "\<lambda>c. \<not> touches ServiceMonitorKind c"]
    issues_mono [OF reconcileHPA_issues, where Q = "\<lambda>c. \<not> touches ServiceMonitorKind c"]
  from i have "i < 8" by (simp add: length_passSteps)
  from below_eight [OF this] show ?thesis
    using fetch inv svc others
    by (elim disjE)
      (simp_all add: passSteps_def step_world step_reconciler FetchAll_kinds_set FetchAll_static
        eval_nat_numeral)
qed

lemma passSteps_last:
  "passSteps cl r fc =
     take 7 (passSteps cl r fc) @ [autoscalerStep cl (passBuilder cl r fc) (fc_Spec fc)]"
  by (simp add: passSteps_def)

subsection \<open>The service comparator\<close>

lemma serviceNeedsUpdate_ports_result:
  "serviceNeedsUpdate_ports ports desired report =
     (if list_ex (portMatches desired) ports then (False, report)
      else (True, Add report ''Port changed''))"
  by (induction ports) (simp_all add: portMatches_def)

lemma serviceNeedsUpdate_result:
  "serviceNeedsUpdate svc desired report =
     (if list_ex (portMatches desired) (svc_Ports svc) then (False, report)
      else (True, Add report ''Port changed''))"
  by (simp add: serviceNeedsUpdate_def serviceNeedsUpdate_ports_result)

lemma reconcileService_existing_trace:
  assumes "Exists (nobjMngr r) ServiceKind"
  shows "\<exists>cs. trace (snd (reconcileService cl r b fcs w)) =
           trace w @
           (if list_ex (portMatches (spec_ConsolePlugin fcs)) (svc_Ports (own_service (owned r)))
            then []
            else [UpdateOwned (ServiceObj (own_service (owned r)))
                    (ServiceObj (b_service b (Some (own_service (owned r)))))]) @ cs
         \<and> (\<forall>c \<in> set cs. \<not> isUpdateOf ServiceKind c \<and> \<not> isCreateOf ServiceKind c)"
  using assms
  by (auto simp: reconcileService_def reconcileService_body_def serviceNeedsUpdate_result
      GenericReconcile_def invoke_def trace_LogIfNeeded split: option.splits prod.splits bool.splits)

text \<open>
  Claim C1. For every existing service and desired plugin specification,
  \<open>serviceNeedsUpdate\<close> returns false exactly when some entry of the service's port
  list has the desired port number and protocol TCP; otherwise it returns true and
  appends the reason "Port changed" to the report. Meta data and type of the service
  do not influence the result. When the service exists, \<open>reconcileService\<close> issues no
  update of it in the first case and exactly one in the second, and never creates it.
\<close>

theorem serviceNeedsUpdate_port_only:
  "fst (serviceNeedsUpdate svc desired report) =
     (\<not> (\<exists>port \<in> set (svc_Ports svc). sp_Port port = cp_Port desired \<and> sp_Protocol port = ''TCP''))
   \<and> snd (serviceNeedsUpdate svc desired report) =
     (if fst (serviceNeedsUpdate svc desired report) then Add report ''Port changed'' else report)
   \<and> serviceNeedsUpdate (svc\<lparr>svc_Meta := meta, svc_Type := ty\<rparr>) desired report =
     serviceNeedsUpdate svc desired report
   \<and> (Exists (nobjMngr r) ServiceKind \<longrightarrow>
       updatesOf ServiceKind (newCalls w (snd (reconcileService cl r b fcs w))) =
         (if \<exists>port \<in> set (svc_Ports (own_service (owned r))).
               sp_Port port = cp_Port (spec_ConsolePlugin fcs) \<and> sp_Protocol port = ''TCP''
          then []
          else [UpdateOwned (ServiceObj (own_service (owned r)))
                  (ServiceObj (b_service b (Some (own_service (owned r)))))])
       \<and> createsOf ServiceKind (newCalls w (snd (reconcileService cl r b fcs w))) = [])"
proof -
  have a: "fst (serviceNeedsUpdate svc desired report) =
     (\<not> (\<exists>port \<in> set (svc_Ports svc). sp_Port port = cp_Port desired \<and> sp_Protocol port = ''TCP''))"
    by (simp add: serviceNeedsUpdate_result list_ex_iff portMatches_def)
  have b: "snd (serviceNeedsUpdate svc desired report) =
     (if fst (serviceNeedsUpdate svc desired report) then Add report ''Port changed'' else report)"
    by (simp add: serviceNeedsUpdate_result)
  have c: "serviceNeedsUpdate (svc\<lparr>svc_Meta := meta, svc_Type := ty\<rparr>) desired report =
     serviceNeedsUpdate svc desired report"
    by (simp add: serviceNeedsUpdate_def)
  have d: "updatesOf ServiceKind (newCalls w (snd (reconcileService cl r b fcs w))) =
         (if \<exists>port \<in> set (svc_Ports (own_service (owned r))).
               sp_Port port = cp_Port (spec_ConsolePlugin fcs) \<and> sp_Protocol port = ''TCP''
          then []
          else [UpdateOwned (ServiceObj (own_service (owned r)))
                  (ServiceObj (b_service b (Some (own_service (owned r)))))])
       \<and> createsOf ServiceKind (newCalls w (snd (reconcileService cl r b fcs w))) = []"
    if ex: "Exists (nobjMngr r) ServiceKind"
  proof -
    from reconcileService_existing_trace [OF ex, of cl b fcs w] obtain cs where
      t: "trace (snd (reconcileService cl r b fcs w)) =
           trace w @
           (if list_ex (portMatches (spec_ConsolePlugin fcs)) (svc_Ports (own_service (owned r)))
            then []
            else [UpdateOwned (ServiceObj (own_service (owned r)))
                    (ServiceObj (b_service b (Some (own_service (owned r)))))]) @ cs"
      and n: "\<forall>c \<in> set cs. \<not> isUpdateOf ServiceKind c \<and> \<not> isCreateOf ServiceKind c"
      by blast
    have f1: "filter (isUpdateOf ServiceKind) cs = []" and f2: "filter (isCreateOf ServiceKind) cs = []"
      using n by (simp_all add: filter_empty_conv)
    show ?thesis
      by (simp add: newCalls_append [OF t] updatesOf_def createsOf_def f1 f2 list_ex_iff
          portMatches_def)
  qed
  from a b c d show ?thesis by blast
qed

text \<open>
  The settled service listens on port 9001 with TCP: a desired port 9002 gives one
  update, the desired port 9001 none.
\<close>

theorem serviceNeedsUpdate_port_only_witness:
  "Exists (nobjMngr exFetched) ServiceKind
   \<and> fst (serviceNeedsUpdate (exService ''netobserv'' 9001)
            (spec_ConsolePlugin (exSpec True 9002 1 False)) (NewChangeReport ''Console service''))
   \<and> updatesOf ServiceKind (newCalls emptyWorld (snd (reconcileService exSettled exFetched
         (exBuilder ''netobserv'' ''plugin:v1'' (exSpec True 9002 1 False))
         (exSpec True 9002 1 False) emptyWorld))) =
       [UpdateOwned (ServiceObj (exService ''netobserv'' 9001)) (ServiceObj (exService ''netobserv'' 9002))]
   \<and> updatesOf ServiceKind (newCalls emptyWorld (snd (reconcileService exSettled exFetched
         (exBuilder ''netobserv'' ''plugin:v1'' (exSpec True 9001 1 False))
         (exSpec True 9001 1 False) emptyWorld))) = []"
  using
    serviceNeedsUpdate_port_only [of "exService ''netobserv'' 9001"
      "spec_ConsolePlugin (exSpec True 9002 1 False)" "NewChangeReport ''Console service''"
      _ _ exFetched emptyWorld exSettled "exBuilder ''netobserv'' ''plugin:v1'' (exSpec True 9002 1 False)"
      "exSpec True 9002 1 False"]
    serviceNeedsUpdate_port_only [of "exService ''netobserv'' 9001"
      "spec_ConsolePlugin (exSpec True 9001 1 False)" "NewChangeReport ''Console service''"
      _ _ exFetched emptyWorld exSettled "exBuilder ''netobserv'' ''plugin:v1'' (exSpec True 9001 1 False)"
      "exSpec True 9001 1 False"]
  by (simp add: ex_defs Exists_def)

subsection \<open>Replica count and autoscaler\<close>

lemma reconcileHPA_disabled:
  "HPADisabled (cp_Autoscaler (spec_ConsolePlugin desired)) \<Longrightarrow>
   reconcileHPA cl r b desired w =
     (None, w\<lparr>trace := trace w @ (if Exists (nobjMngr r) HPAKind then [ClientDelete HPAKind] else [])\<rparr>)"
  by (simp add: reconcileHPA_def reconcileHPA_body_def TryDelete_def invoke_def LogIfNeeded_def
      NewChangeReport_def)

text \<open>
  Claim C2, with the deployment comparator of the spec. Asked not to check the
  replicas, the comparator gives the same result for every replica count of the existing
  deployment, of the new one and of the desired specification. When autoscaling is
  enabled, whether the existing deployment is updated does not depend on the replica
  count:
  a desired specification and a built deployment that differ in the replica count only
  give an update in the one pass exactly when they give one in the other. When
  autoscaling is disabled, an existing deployment whose replica count differs from the
  desired one is updated (the certificate annotation having succeeded), and
  \<open>reconcileHPA\<close> returns nil after one delete of the autoscaler if it exists, and
  after no call at all if it does not, whatever the cluster answers to the delete.
\<close>

theorem autoscaler_owns_replica_count:
  "DeploymentChanged_spec (old\<lparr>dep_Replicas := k\<rparr>) (new\<lparr>dep_Replicas := k'\<rparr>) contName False
      replicas report =
    DeploymentChanged_spec old new contName False replicas' report
   \<and> (Exists (nobjMngr r) DeploymentKind
      \<and> \<not> HPADisabled (cp_Autoscaler (spec_ConsolePlugin desired))
      \<and> b_deployment b' dg = (b_deployment b dg)\<lparr>dep_Replicas := n\<rparr> \<longrightarrow>
      (updatesOf DeploymentKind (newCalls w (snd (reconcileDeployment
           (cl\<lparr>DeploymentChanged := DeploymentChanged_spec\<rparr>) r b'
           (desired\<lparr>spec_ConsolePlugin := (spec_ConsolePlugin desired)\<lparr>cp_Replicas := n\<rparr>\<rparr>) dg w))) = [])
      = (updatesOf DeploymentKind (newCalls w (snd (reconcileDeployment
           (cl\<lparr>DeploymentChanged := DeploymentChanged_spec\<rparr>) r b desired dg w))) = []))
   \<and> (Exists (nobjMngr r) DeploymentKind
      \<and> HPADisabled (cp_Autoscaler (spec_ConsolePlugin desired))
      \<and> certAnnotate cl (dep_Template (b_deployment b dg)) = Inr t
      \<and> dep_Replicas (own_deployment (owned r)) \<noteq> cp_Replicas (spec_ConsolePlugin desired) \<longrightarrow>
      updatesOf DeploymentKind (newCalls w (snd (reconcileDeployment
           (cl\<lparr>DeploymentChanged := DeploymentChanged_spec\<rparr>) r b desired dg w))) =
        [UpdateOwned (DeploymentObj (own_deployment (owned r)))
           (DeploymentObj ((b_deployment b dg)\<lparr>dep_Template := t\<rparr>))])
   \<and> (HPADisabled (cp_Autoscaler (spec_ConsolePlugin desired)) \<longrightarrow>
      reconcileHPA cl r b desired w =
        (None, w\<lparr>trace := trace w @ (if Exists (nobjMngr r) HPAKind then [ClientDelete HPAKind] else [])\<rparr>))"
proof -
  have a: "(updatesOf DeploymentKind (newCalls w (snd (reconcileDeployment
           (cl\<lparr>DeploymentChanged := DeploymentChanged_spec\<rparr>) r b'
           (desired\<lparr>spec_ConsolePlugin := (spec_ConsolePlugin desired)\<lparr>cp_Replicas := n\<rparr>\<rparr>) dg w))) = [])
      = (updatesOf DeploymentKind (newCalls w (snd (reconcileDeployment
           (cl\<lparr>DeploymentChanged := DeploymentChanged_spec\<rparr>) r b desired dg w))) = [])"
    if "Exists (nobjMngr r) DeploymentKind"
      and "\<not> HPADisabled (cp_Autoscaler (spec_ConsolePlugin desired))"
      and "b_deployment b' dg = (b_deployment b dg)\<lparr>dep_Replicas := n\<rparr>"
    using that
    by (cases "certAnnotate cl (dep_Template (b_deployment b dg))")
      (simp_all add: reconcileDeployment_def reconcileDeployment_body_def DeploymentChanged_spec_def
        invoke_def newCalls_def updatesOf_def trace_LogIfNeeded Let_def)
  have b: "updatesOf DeploymentKind (newCalls w (snd (reconcileDeployment
           (cl\<lparr>DeploymentChanged := DeploymentChanged_spec\<rparr>) r b desired dg w))) =
        [UpdateOwned (DeploymentObj (own_deployment (owned r)))
           (DeploymentObj ((b_deployment b dg)\<lparr>dep_Template := t\<rparr>))]"
    if "Exists (nobjMngr r) DeploymentKind"
      and "HPADisabled (cp_Autoscaler (spec_ConsolePlugin desired))"
      and "certAnnotate cl (dep_Template (b_deployment b dg)) = Inr t"
      and "dep_Replicas (own_deployment (owned r)) \<noteq> cp_Replicas (spec_ConsolePlugin desired)"
    using that
    by (simp add: reconcileDeployment_def reconcileDeployment_body_def DeploymentChanged_spec_def
        invoke_def newCalls_def updatesOf_def trace_LogIfNeeded Let_def)
  have c: "reconcileHPA cl r b desired w =
        (None, w\<lparr>trace := trace w @ (if Exists (nobjMngr r) HPAKind then [ClientDelete HPAKind] else [])\<rparr>)"
    if "HPADisabled (cp_Autoscaler (spec_ConsolePlugin desired))"
    using that
    by (simp add: reconcileHPA_def reconcileHPA_body_def TryDelete_def invoke_def LogIfNeeded_def
        NewChangeReport_def)
  have d: "DeploymentChanged_spec (old\<lparr>dep_Replicas := k\<rparr>) (new\<lparr>dep_Replicas := k'\<rparr>) contName
      False replicas report =
    DeploymentChanged_spec old new contName False replicas' report"
    by (simp add: DeploymentChanged_spec_def)
  from a b c d show ?thesis by blast
qed

text \<open>
  On the settled cluster (one replica): with autoscaling enabled, five desired replicas
  give no update; with autoscaling disabled they give one, and the absent autoscaler
  is left alone.
\<close>

theorem autoscaler_owns_replica_count_witness:
  "Exists (nobjMngr exFetched) DeploymentKind
   \<and> \<not> HPADisabled (cp_Autoscaler (spec_ConsolePlugin (exSpec True 9001 1 True)))
   \<and> updatesOf DeploymentKind (newCalls emptyWorld (snd (reconcileDeployment
         (exSettled\<lparr>DeploymentChanged := DeploymentChanged_spec\<rparr>) exFetched
         (exBuilder ''netobserv'' ''plugin:v1'' (exSpec True 9001 5 True))
         (exSpec True 9001 5 True) ''digest-1'' emptyWorld))) = []
   \<and> HPADisabled (cp_Autoscaler (spec_ConsolePlugin (exSpec True 9001 5 False)))
   \<and> updatesOf DeploymentKind (newCalls emptyWorld (snd (reconcileDeployment
         (exSettled\<lparr>DeploymentChanged := DeploymentChanged_spec\<rparr>) exFetched
         (exBuilder ''netobserv'' ''plugin:v1'' (exSpec True 9001 5 False))
         (exSpec True 9001 5 False) ''digest-1'' emptyWorld))) =
       [UpdateOwned (DeploymentObj (exAnnotated (exDeployment ''netobserv'' ''plugin:v1'' 1 ''digest-1'')))
          (DeploymentObj (exAnnotated (exDeployment ''netobserv'' ''plugin:v1'' 5 ''digest-1'')))]
   \<and> reconcileHPA exSettled exFetched (exBuilder ''netobserv'' ''plugin:v1'' (exSpec True 9001 5 False))
         (exSpec True 9001 5 False) emptyWorld = (None, emptyWorld)"
proof -
  let ?on = "exSpec True 9001 1 True" and ?off = "exSpec True 9001 5 False"
  let ?cl = "exSettled\<lparr>DeploymentChanged := DeploymentChanged_spec\<rparr>"
  let ?b = "exBuilder ''netobserv'' ''plugin:v1''"
  have ex: "Exists (nobjMngr exFetched) DeploymentKind"
    by (simp add: exFetched_def Exists_def)
  have on: "\<not> HPADisabled (cp_Autoscaler (spec_ConsolePlugin ?on))"
    and off: "HPADisabled (cp_Autoscaler (spec_ConsolePlugin ?off))"
    by (simp_all add: exSpec_def HPADisabled_def)
  have same: "updatesOf DeploymentKind (newCalls emptyWorld (snd (reconcileDeployment ?cl exFetched
         (?b ?on) ?on ''digest-1'' emptyWorld))) = []"
    by (simp add: ex_defs step_defs DeploymentChanged_spec_def)
  have built: "b_deployment (?b (exSpec True 9001 5 True)) ''digest-1'' =
      (b_deployment (?b ?on) ''digest-1'')\<lparr>dep_Replicas := 5\<rparr>"
    by (simp add: ex_defs)
  have spec5: "?on\<lparr>spec_ConsolePlugin := (spec_ConsolePlugin ?on)\<lparr>cp_Replicas := 5\<rparr>\<rparr> =
      exSpec True 9001 5 True"
    by (simp add: exSpec_def)
  have annotated: "certAnnotate exSettled (dep_Template (b_deployment (?b ?off) ''digest-1'')) =
      Inr (dep_Template (exAnnotated (exDeployment ''netobserv'' ''plugin:v1'' 5 ''digest-1'')))"
    by (simp add: ex_defs)
  have differs: "dep_Replicas (own_deployment (owned exFetched)) \<noteq> cp_Replicas (spec_ConsolePlugin ?off)"
    by (simp add: ex_defs)
  have new: "(b_deployment (?b ?off) ''digest-1'')
      \<lparr>dep_Template := dep_Template (exAnnotated (exDeployment ''netobserv'' ''plugin:v1'' 5 ''digest-1''))\<rparr> =
      exAnnotated (exDeployment ''netobserv'' ''plugin:v1'' 5 ''digest-1'')"
    by (simp add: ex_defs)
  have old: "own_deployment (owned exFetched) =
      exAnnotated (exDeployment ''netobserv'' ''plugin:v1'' 1 ''digest-1'')"
    by (simp add: exFetched_def)
  have nohpa: "\<not> Exists (nobjMngr exFetched) HPAKind"
    by (simp add: exFetched_def Exists_def)
  have w: "emptyWorld\<lparr>trace := trace emptyWorld @ []\<rparr> = emptyWorld"
    by (simp add: emptyWorld_def)
  from autoscaler_owns_replica_count [where r = exFetched and desired = ?on
      and b' = "?b (exSpec True 9001 5 True)" and dg = "''digest-1''" and b = "?b ?on" and n = 5
      and w = emptyWorld and cl = exSettled]
    ex on built same
  have a: "updatesOf DeploymentKind (newCalls emptyWorld (snd (reconcileDeployment ?cl exFetched
         (?b (exSpec True 9001 5 True)) (exSpec True 9001 5 True) ''digest-1'' emptyWorld))) = []"
    by (simp add: spec5)
  from autoscaler_owns_replica_count [where r = exFetched and desired = ?off
      and dg = "''digest-1''" and b = "?b ?off" and w = emptyWorld and cl = exSettled
      and t = "dep_Template (exAnnotated (exDeployment ''netobserv'' ''plugin:v1'' 5 ''digest-1''))"]
    ex off annotated differs
  have b: "updatesOf DeploymentKind (newCalls emptyWorld (snd (reconcileDeployment ?cl exFetched
         (?b ?off) ?off ''digest-1'' emptyWorld))) =
       [UpdateOwned (DeploymentObj (exAnnotated (exDeployment ''netobserv'' ''plugin:v1'' 1 ''digest-1'')))
          (DeploymentObj (exAnnotated (exDeployment ''netobserv'' ''plugin:v1'' 5 ''digest-1'')))]"
    and c: "reconcileHPA exSettled exFetched (?b ?off) ?off emptyWorld = (None, emptyWorld)"
    by (simp_all add: new old nohpa w)
  from ex on a off b c show ?thesis by blast
qed

subsection \<open>The config map\<close>

lemma DeepEqual_Some: "DeepEqual (Some m) (Some n) = (map_of m = map_of n)"
proof -
  have "map_of m k = map_of n k" if "\<forall>k \<in> set (map fst m @ map fst n). map_of m k = map_of n k" for k
  proof (cases "k \<in> set (map fst m @ map fst n)")
    case True
    with that show ?thesis by blast
  next
    case False
    then have "map_of m k = None" and "map_of n k = None"
      by (simp_all add: map_of_eq_None_iff)
    then show ?thesis by simp
  qed
  then show ?thesis
    by (auto simp: DeepEqual_def sameMap_def list_all_iff)
qed

text \<open>
  \<^verbatim>\<open>reflect.DeepEqual\<close> tells a nil map from every non-nil map, the empty one included.
\<close>

lemma DeepEqual_nil:
  "DeepEqual None None \<and> \<not> DeepEqual None (Some n) \<and> \<not> DeepEqual (Some m) None"
  by (simp add: DeepEqual_def)

text \<open>
  Claim C3. When the config map exists, \<open>reconcileConfigMap\<close> issues one update if
  the data of the newly built config map and the data of the cached one are not deeply
  equal, and no call at all if they are. Deep equality of two non-nil maps is equality
  as mappings (the same value, or none, at every key); it does not depend on the order
  in which the entries are held.
\<close>

theorem reconcileConfigMap_update_iff_data_differs:
  "(Exists (nobjMngr r) ConfigMapKind \<longrightarrow>
      newCalls w (snd (reconcileConfigMap cl r b desired w)) =
        (if DeepEqual (cm_Data (fst (b_configMap b))) (cm_Data (own_configMap (owned r))) then []
         else [UpdateOwned (ConfigMapObj (own_configMap (owned r)))
                 (ConfigMapObj (fst (b_configMap b)))]))
   \<and> DeepEqual (Some m) (Some n) = (\<forall>k. map_of m k = map_of n k)
   \<and> (distinct (map fst m) \<and> distinct (map fst n) \<and> set m = set n \<longrightarrow>
        DeepEqual (Some m) (Some n))"
proof -
  have a: "newCalls w (snd (reconcileConfigMap cl r b desired w)) =
        (if DeepEqual (cm_Data (fst (b_configMap b))) (cm_Data (own_configMap (owned r))) then []
         else [UpdateOwned (ConfigMapObj (own_configMap (owned r)))
                 (ConfigMapObj (fst (b_configMap b)))])"
    if "Exists (nobjMngr r) ConfigMapKind"
    using that
    by (auto simp: reconcileConfigMap_def invoke_def newCalls_def
        split: prod.splits option.splits)
  have c: "DeepEqual (Some m) (Some n) = (\<forall>k. map_of m k = map_of n k)"
    by (auto simp: DeepEqual_Some)
  have d: "DeepEqual (Some m) (Some n)"
    if "distinct (map fst m)" and "distinct (map fst n)" and "set m = set n"
    using that by (simp add: DeepEqual_Some map_of_inject_set)
  from a c d show ?thesis by blast
qed

text \<open>
  The same two entries in another order give no call; other data give one update.
\<close>

theorem reconcileConfigMap_update_iff_data_differs_witness:
  "Exists (nobjMngr exFetched) ConfigMapKind
   \<and> newCalls emptyWorld (snd (reconcileConfigMap exSettled
         (exFetched\<lparr>owned := (owned exFetched)\<lparr>own_configMap :=
            \<lparr>cm_Meta = exMeta ''console-plugin-config'' ''netobserv'',
             cm_Data = Some [(''a'', ''1''), (''b'', ''2'')]\<rparr>\<rparr>\<rparr>)
         ((exBuilder ''netobserv'' ''plugin:v1'' (exSpec True 9001 1 False))\<lparr>b_configMap :=
            (\<lparr>cm_Meta = exMeta ''console-plugin-config'' ''netobserv'',
              cm_Data = Some [(''b'', ''2''), (''a'', ''1'')]\<rparr>, ''digest-2'')\<rparr>)
         (exSpec True 9001 1 False) emptyWorld)) = []
   \<and> newCalls emptyWorld (snd (reconcileConfigMap exSettled exFetched
         ((exBuilder ''netobserv'' ''plugin:v1'' (exSpec True 9001 1 False))\<lparr>b_configMap :=
            (\<lparr>cm_Meta = exMeta ''console-plugin-config'' ''netobserv'',
              cm_Data = Some [(''b'', ''2''), (''a'', ''1'')]\<rparr>, ''digest-2'')\<rparr>)
         (exSpec True 9001 1 False) emptyWorld)) =
       [UpdateOwned (ConfigMapObj (exConfigMap ''netobserv''))
          (ConfigMapObj \<lparr>cm_Meta = exMeta ''console-plugin-config'' ''netobserv'',
              cm_Data = Some [(''b'', ''2''), (''a'', ''1'')]\<rparr>)]
   \<and> distinct (map fst [(''a'', ''1''), (''b'', ''2'')])
   \<and> distinct (map fst [(''b'', ''2''), (''a'', ''1'')])
   \<and> set [(''a'', ''1''), (''b'', ''2'')] = set [(''b'', ''2''), (''a'', ''1'')]
   \<and> DeepEqual (Some [(''a'', ''1''), (''b'', ''2'')]) (Some [(''b'', ''2''), (''a'', ''1'')])"
proof -
  let ?m = "[(''a'', ''1''), (''b'', ''2'')]" and ?n = "[(''b'', ''2''), (''a'', ''1'')]"
  let ?new = "\<lparr>cm_Meta = exMeta ''console-plugin-config'' ''netobserv'', cm_Data = Some ?n\<rparr>"
  let ?b = "(exBuilder ''netobserv'' ''plugin:v1'' (exSpec True 9001 1 False))\<lparr>b_configMap :=
            (?new, ''digest-2'')\<rparr>"
  let ?r = "exFetched\<lparr>owned := (owned exFetched)\<lparr>own_configMap :=
            \<lparr>cm_Meta = exMeta ''console-plugin-config'' ''netobserv'', cm_Data = Some ?m\<rparr>\<rparr>\<rparr>"
  have ex: "Exists (nobjMngr exFetched) ConfigMapKind" "Exists (nobjMngr ?r) ConfigMapKind"
    by (simp_all add: exFetched_def Exists_def)
  have d: "distinct (map fst ?m)" "distinct (map fst ?n)" "set ?m = set ?n"
    by auto
  have eq: "DeepEqual (Some ?n) (Some ?m)" and ne: "\<not> DeepEqual (Some ?n) (cm_Data (exConfigMap ''netobserv''))"
    by (simp_all add: DeepEqual_def sameMap_def exConfigMap_def)
  from reconcileConfigMap_update_iff_data_differs
      [where r = ?r and w = emptyWorld and cl = exSettled and b = ?b
        and desired = "exSpec True 9001 1 False" and m = ?m and n = ?n] ex d eq
  have a: "newCalls emptyWorld (snd (reconcileConfigMap exSettled ?r ?b (exSpec True 9001 1 False)
      emptyWorld)) = []"
    and c: "DeepEqual (Some ?m) (Some ?n)"
    by simp_all
  from reconcileConfigMap_update_iff_data_differs
      [where r = exFetched and w = emptyWorld and cl = exSettled and b = ?b
        and desired = "exSpec True 9001 1 False"] ex ne
  have b: "newCalls emptyWorld (snd (reconcileConfigMap exSettled exFetched ?b
      (exSpec True 9001 1 False) emptyWorld)) =
       [UpdateOwned (ConfigMapObj (exConfigMap ''netobserv'')) (ConfigMapObj ?new)]"
    by (simp add: exFetched_def)
  from ex(1) a b d c show ?thesis by blast
qed

subsection \<open>Registration in the Console resource\<close>

text \<open>
  Claim C4. When the Console resource can be read: with \<open>Register\<close> true and the plugin
  name in the list, \<open>checkAutoPatch\<close> makes no write; with \<open>Register\<close> true and the
  name absent, exactly one write, of the list with the name appended; with \<open>Register\<close>
  false and the name present, exactly one write, of the list without any occurrence of
  the name; with \<open>Register\<close> false and the name absent, no write.
\<close>

theorem checkAutoPatch_registration_writes:
  "getConsole cl = Inr console \<longrightarrow>
     (cp_Register (spec_ConsolePlugin (fc_Spec desired)) \<and> PluginName cl \<in> set (con_Plugins console) \<longrightarrow>
        newCalls w (snd (checkAutoPatch cl desired w)) = [ClientGet ConsoleKind])
   \<and> (cp_Register (spec_ConsolePlugin (fc_Spec desired)) \<and> PluginName cl \<notin> set (con_Plugins console) \<longrightarrow>
        newCalls w (snd (checkAutoPatch cl desired w)) =
          [ClientGet ConsoleKind,
           ClientUpdate (ConsoleObj (console\<lparr>con_Plugins := con_Plugins console @ [PluginName cl]\<rparr>))])
   \<and> (\<not> cp_Register (spec_ConsolePlugin (fc_Spec desired)) \<and> PluginName cl \<in> set (con_Plugins console) \<longrightarrow>
        newCalls w (snd (checkAutoPatch cl desired w)) =
          [ClientGet ConsoleKind,
           ClientUpdate (ConsoleObj
             (console\<lparr>con_Plugins := filter (\<lambda>s. s \<noteq> PluginName cl) (con_Plugins console)\<rparr>))])
   \<and> (\<not> cp_Register (spec_ConsolePlugin (fc_Spec desired)) \<and> PluginName cl \<notin> set (con_Plugins console) \<longrightarrow>
        newCalls w (snd (checkAutoPatch cl desired w)) = [ClientGet ConsoleKind])"
  by (auto simp: checkAutoPatch_def ContainsString_def RemoveAllStrings_def invoke_def newCalls_def
      Let_def)

text \<open>The four cases, on the lists \<open>[other, plugin]\<close> and \<open>[other]\<close>.\<close>

theorem checkAutoPatch_registration_writes_witness:
  "getConsole exSettled = Inr \<lparr>con_ManagementState = ''Managed'', con_Plugins = [''other'', ''plugin'']\<rparr>
   \<and> getConsole exFresh = Inr \<lparr>con_ManagementState = ''Managed'', con_Plugins = [''other'']\<rparr>
   \<and> PluginName exSettled = ''plugin'' \<and> PluginName exFresh = ''plugin''
   \<and> newCalls emptyWorld (snd (checkAutoPatch exSettled (exDesired True 9001 1 False) emptyWorld)) =
       [ClientGet ConsoleKind]
   \<and> newCalls emptyWorld (snd (checkAutoPatch exFresh (exDesired True 9001 1 False) emptyWorld)) =
       [ClientGet ConsoleKind,
        ClientUpdate (ConsoleObj \<lparr>con_ManagementState = ''Managed'', con_Plugins = [''other'', ''plugin'']\<rparr>)]
   \<and> newCalls emptyWorld (snd (checkAutoPatch exSettled (exDesired False 9001 1 False) emptyWorld)) =
       [ClientGet ConsoleKind,
        ClientUpdate (ConsoleObj \<lparr>con_ManagementState = ''Managed'', con_Plugins = [''other'']\<rparr>)]
   \<and> newCalls emptyWorld (snd (checkAutoPatch exFresh (exDesired False 9001 1 False) emptyWorld)) =
       [ClientGet ConsoleKind]"
proof -
  let ?in = "\<lparr>con_ManagementState = ''Managed'', con_Plugins = [''other'', ''plugin'']\<rparr>"
  let ?out = "\<lparr>con_ManagementState = ''Managed'', con_Plugins = [''other'']\<rparr>"
  have g: "getConsole exSettled = Inr ?in" "getConsole exFresh = Inr ?out"
    and n: "PluginName exSettled = ''plugin''" "PluginName exFresh = ''plugin''"
    by (simp_all add: exSettled_def exFresh_def)
  have reg: "cp_Register (spec_ConsolePlugin (fc_Spec (exDesired True 9001 1 False)))"
    "\<not> cp_Register (spec_ConsolePlugin (fc_Spec (exDesired False 9001 1 False)))"
    by (simp_all add: exDesired_def exSpec_def)
  note inst = checkAutoPatch_registration_writes [where w = emptyWorld]
  from inst [where cl = exSettled and console = ?in and desired = "exDesired True 9001 1 False"] g n reg
  have a: "newCalls emptyWorld (snd (checkAutoPatch exSettled (exDesired True 9001 1 False) emptyWorld)) =
       [ClientGet ConsoleKind]" by simp
  from inst [where cl = exFresh and console = ?out and desired = "exDesired True 9001 1 False"] g n reg
  have b: "newCalls emptyWorld (snd (checkAutoPatch exFresh (exDesired True 9001 1 False) emptyWorld)) =
       [ClientGet ConsoleKind, ClientUpdate (ConsoleObj ?in)]" by simp
  from inst [where cl = exSettled and console = ?in and desired = "exDesired False 9001 1 False"] g n reg
  have c: "newCalls emptyWorld (snd (checkAutoPatch exSettled (exDesired False 9001 1 False) emptyWorld)) =
       [ClientGet ConsoleKind, ClientUpdate (ConsoleObj ?out)]" by simp
  from inst [where cl = exFresh and console = ?out and desired = "exDesired False 9001 1 False"] g n reg
  have d: "newCalls emptyWorld (snd (checkAutoPatch exFresh (exDesired False 9001 1 False) emptyWorld)) =
       [ClientGet ConsoleKind]" by simp
  from g n a b c d show ?thesis by blast
qed

lemma Reconcile_registration_error:
  "fst (FetchAll cl r w) = None \<Longrightarrow>
   fst (checkAutoPatch cl fc (snd (snd (FetchAll cl r w)))) = Some err \<Longrightarrow>
   fst (Reconcile cl r fc w) = Some err"
  by (simp add: Reconcile_def split_beta Let_def)

text \<open>
  Claim C5 as stated fails: the read of the Console resource fails, \<open>Register\<close> is
  false, and \<open>checkAutoPatch\<close> returns nil without logging anything.
\<close>

theorem checkAutoPatch_silent_read_failure:
  "getConsole (exFresh\<lparr>getConsole := Inl (ErrOther ''unreachable'')\<rparr>) = Inl (ErrOther ''unreachable'')
   \<and> checkAutoPatch (exFresh\<lparr>getConsole := Inl (ErrOther ''unreachable'')\<rparr>)
        (exDesired False 9001 1 False) emptyWorld =
       (None, \<lparr>trace = [ClientGet ConsoleKind], logs = []\<rparr>)"
  by (simp add: checkAutoPatch_def ex_defs)

text \<open>
  Claim C5, amended. For every error of the read of the Console resource,
  \<open>checkAutoPatch\<close> returns nil, and it logs the error when \<open>Register\<close> is true and
  logs nothing when it is false. When the read succeeds and the membership of the
  plugin name differs from \<open>Register\<close>, one write is attempted and its outcome is what
  \<open>checkAutoPatch\<close> returns; when the membership is as \<open>Register\<close> says, it returns
  nil without a write. An error of \<open>checkAutoPatch\<close> after a successful fetch is the
  error of the pass.
\<close>

theorem checkAutoPatch_read_failure_tolerated:
  "(getConsole cl = Inl err \<longrightarrow>
      checkAutoPatch cl desired w =
        (None,
         w\<lparr>trace := trace w @ [ClientGet ConsoleKind],
           logs := logs w @
             (if cp_Register (spec_ConsolePlugin (fc_Spec desired))
              then [LogError err
                ''Could not get the Console Operator resource for plugin registration. Please register manually.'']
              else [])\<rparr>))
   \<and> (getConsole cl = Inr console
        \<and> cp_Register (spec_ConsolePlugin (fc_Spec desired)) \<noteq> (PluginName cl \<in> set (con_Plugins console)) \<longrightarrow>
      (\<exists>ob. newCalls w (snd (checkAutoPatch cl desired w)) = [ClientGet ConsoleKind, ClientUpdate ob]
            \<and> fst (checkAutoPatch cl desired w) = outcome cl (ClientUpdate ob)))
   \<and> (getConsole cl = Inr console
        \<and> cp_Register (spec_ConsolePlugin (fc_Spec desired)) = (PluginName cl \<in> set (con_Plugins console)) \<longrightarrow>
      checkAutoPatch cl desired w = (None, w\<lparr>trace := trace w @ [ClientGet ConsoleKind]\<rparr>))
   \<and> (fst (FetchAll cl r w0) = None
        \<and> fst (checkAutoPatch cl desired (snd (snd (FetchAll cl r w0)))) = Some failure \<longrightarrow>
      fst (Reconcile cl r desired w0) = Some failure)"
  using Reconcile_registration_error [of cl r w0 desired failure]
  by (auto simp: checkAutoPatch_def ContainsString_def invoke_def newCalls_def Let_def)

text \<open>
  An unreachable Console resource with \<open>Register\<close> true is logged; a refused write of
  the list ends the pass with that error; a list that holds the name already is left
  alone.
\<close>

theorem checkAutoPatch_read_failure_tolerated_witness:
  "getConsole (exFresh\<lparr>getConsole := Inl (ErrOther ''unreachable'')\<rparr>) = Inl (ErrOther ''unreachable'')
   \<and> checkAutoPatch (exFresh\<lparr>getConsole := Inl (ErrOther ''unreachable'')\<rparr>)
        (exDesired True 9001 1 False) emptyWorld =
       (None, \<lparr>trace = [ClientGet ConsoleKind],
               logs = [LogError (ErrOther ''unreachable'')
                 ''Could not get the Console Operator resource for plugin registration. Please register manually.'']\<rparr>)
   \<and> getConsole (exFresh\<lparr>outcome := exOutcome (isUpdateOf ConsoleKind)\<rparr>) =
       Inr \<lparr>con_ManagementState = ''Managed'', con_Plugins = [''other'']\<rparr>
   \<and> fst (checkAutoPatch (exFresh\<lparr>outcome := exOutcome (isUpdateOf ConsoleKind)\<rparr>)
        (exDesired True 9001 1 False) emptyWorld) = Some (ErrOther ''refused'')
   \<and> fst (FetchAll (exFresh\<lparr>outcome := exOutcome (isUpdateOf ConsoleKind)\<rparr>) (exReconciler True)
        emptyWorld) = None
   \<and> fst (Reconcile (exFresh\<lparr>outcome := exOutcome (isUpdateOf ConsoleKind)\<rparr>) (exReconciler True)
        (exDesired True 9001 1 False) emptyWorld) = Some (ErrOther ''refused'')
   \<and> getConsole exSettled = Inr \<lparr>con_ManagementState = ''Managed'', con_Plugins = [''other'', ''plugin'']\<rparr>
   \<and> checkAutoPatch exSettled (exDesired True 9001 1 False) emptyWorld =
       (None, \<lparr>trace = [ClientGet ConsoleKind], logs = []\<rparr>)"
proof -
  let ?down = "exFresh\<lparr>getConsole := Inl (ErrOther ''unreachable'')\<rparr>"
  let ?refuse = "exFresh\<lparr>outcome := exOutcome (isUpdateOf ConsoleKind)\<rparr>"
  let ?in = "\<lparr>con_ManagementState = ''Managed'', con_Plugins = [''other'', ''plugin'']\<rparr>"
  let ?out = "\<lparr>con_ManagementState = ''Managed'', con_Plugins = [''other'']\<rparr>"
  let ?fc = "exDesired True 9001 1 False"
  have g: "getConsole ?down = Inl (ErrOther ''unreachable'')" "getConsole ?refuse = Inr ?out"
    "getConsole exSettled = Inr ?in"
    and n: "PluginName exSettled = ''plugin''" "PluginName ?refuse = ''plugin''"
    by (simp_all add: exSettled_def exFresh_def)
  have reg: "cp_Register (spec_ConsolePlugin (fc_Spec ?fc))"
    by (simp add: exDesired_def exSpec_def)
  have fails: "outcome ?refuse (ClientUpdate ob) = Some (ErrOther ''refused'')"
    if "newCalls emptyWorld (snd (checkAutoPatch ?refuse ?fc emptyWorld)) =
        [ClientGet ConsoleKind, ClientUpdate ob]" for ob
  proof -
    from that checkAutoPatch_issues [of emptyWorld ?refuse ?fc]
    have "stepOf (ClientUpdate ob) = 2"
      using issues_newCalls by fastforce
    then have "kindOf ob = ConsoleKind" by (cases ob) simp_all
    then show ?thesis by (simp add: exOutcome_def)
  qed
  have fetched: "fst (FetchAll ?refuse (exReconciler True) emptyWorld) = None"
    by (simp add: ex_defs step_defs)
  have refused: "fst (checkAutoPatch ?refuse ?fc (snd (snd (FetchAll ?refuse (exReconciler True) emptyWorld)))) =
      Some (ErrOther ''refused'')"
    by (simp add: ex_defs step_defs)
  note inst = checkAutoPatch_read_failure_tolerated [where w = emptyWorld and desired = ?fc
      and r = "exReconciler True" and ?w0.0 = emptyWorld and failure = "ErrOther ''refused''"]
  from inst [where cl = ?down and err = "ErrOther ''unreachable''"] g reg
  have a: "checkAutoPatch ?down ?fc emptyWorld =
       (None, \<lparr>trace = [ClientGet ConsoleKind],
               logs = [LogError (ErrOther ''unreachable'')
                 ''Could not get the Console Operator resource for plugin registration. Please register manually.'']\<rparr>)"
    by (simp add: emptyWorld_def)
  from inst [where cl = ?refuse and console = ?out] g n reg fails
  have b: "fst (checkAutoPatch ?refuse ?fc emptyWorld) = Some (ErrOther ''refused'')"
    by auto
  from inst [where cl = ?refuse] fetched refused
  have p: "fst (Reconcile ?refuse (exReconciler True) ?fc emptyWorld) = Some (ErrOther ''refused'')"
    by blast
  from inst [where cl = exSettled and console = ?in] g n reg
  have c: "checkAutoPatch exSettled ?fc emptyWorld =
       (None, \<lparr>trace = [ClientGet ConsoleKind], logs = []\<rparr>)"
    by (simp add: emptyWorld_def)
  from g a b fetched p c show ?thesis by blast
qed

subsection \<open>The order of the steps\<close>

lemma reconcileConfigMap_digest:
  "fst (reconcileConfigMap cl r b desired w) = Inr dg \<Longrightarrow> dg = snd (b_configMap b)"
  by (auto simp: reconcileConfigMap_def split: prod.splits option.splits if_splits)

lemma runSteps_take5_digest:
  assumes "runSteps (take 5 (passSteps cl r fc)) (r, [], w) = (None, r5, dg5, w5)"
  shows "dg5 = snd (b_configMap (passBuilder cl r fc))"
proof -
  let ?b = "passBuilder cl r fc"
  have t: "take 5 (passSteps cl r fc) =
      [fetchStep cl, registrationStep cl fc, permissionsStep cl ?b, pluginStep cl ?b (fc_Spec fc)]
      @ [configMapStep cl ?b (fc_Spec fc)]"
    by (simp add: passSteps_def)
  obtain e4 r4 dg4 w4 where four:
    "runSteps [fetchStep cl, registrationStep cl fc, permissionsStep cl ?b, pluginStep cl ?b (fc_Spec fc)]
       (r, [], w) = (e4, r4, dg4, w4)"
    by (metis prod_cases4)
  from assms have cm: "e4 = None \<and> configMapStep cl ?b (fc_Spec fc) (r4, dg4, w4) = (None, r5, dg5, w5)"
    unfolding t runSteps_append four by (cases e4) (simp_all split: prod.splits option.splits)
  then have "fst (reconcileConfigMap cl r4 ?b (fc_Spec fc) w4) = Inr dg5"
    by (auto simp: configMapStep_def split: prod.splits sum.splits)
  then show ?thesis by (rule reconcileConfigMap_digest)
qed

text \<open>
  Claim C6. \<open>Reconcile\<close> is the run of the eight steps of \<open>passSteps\<close> in their order
  (fetch, registration, permissions, plugin registration resource, config map,
  deployment, service and service monitor, autoscaler), stopped at the first error. If
  it returns an error, some step \<open>k\<close> returned it after the steps before it had
  succeeded, and the reconciler and world returned are those that step left: no later
  step ran. With only the kinds of \<open>NewReconciler\<close> registered, the calls of a pass
  follow the order of the steps. The digest the deployment step consumes is the one the
  config-map step produced, which is the builder's.
\<close>

theorem Reconcile_fixed_order:
  "Reconcile cl r fc w =
     (case runSteps (passSteps cl r fc) (r, [], w) of (e, r', dg, w') \<Rightarrow> (e, r', w'))
   \<and> (fst (Reconcile cl r fc w) = Some err \<longrightarrow>
        (\<exists>k<length (passSteps cl r fc). \<exists>q.
           runSteps (take k (passSteps cl r fc)) (r, [], w) = (None, q)
           \<and> fst ((passSteps cl r fc ! k) q) = Some err
           \<and> fst (snd (Reconcile cl r fc w)) = fst (snd ((passSteps cl r fc ! k) q))
           \<and> snd (snd (Reconcile cl r fc w)) = snd (snd (snd ((passSteps cl r fc ! k) q)))))
   \<and> (ConsoleKind \<notin> mo_Kind ` set (managedObjects (nobjMngr r))
        \<and> ConsolePluginKind \<notin> mo_Kind ` set (managedObjects (nobjMngr r)) \<longrightarrow>
        sorted (map stepOf (newCalls w (snd (snd (Reconcile cl r fc w))))))
   \<and> (runSteps (take 5 (passSteps cl r fc)) (r, [], w) = (None, r5, dg5, w5) \<longrightarrow>
        dg5 = snd (b_configMap (passBuilder cl r fc))
        \<and> (passSteps cl r fc ! 5) (r5, dg5, w5) =
            (case reconcileDeployment cl r5 (passBuilder cl r fc) (fc_Spec fc)
                    (snd (b_configMap (passBuilder cl r fc))) w5 of
               (e, w') \<Rightarrow> (e, r5, dg5, w')))"
proof -
  let ?ss = "passSteps cl r fc" and ?p = "(r, [], w) :: pass"
  have abort: "\<exists>k<length ?ss. \<exists>q.
           runSteps (take k ?ss) ?p = (None, q)
           \<and> fst ((?ss ! k) q) = Some err
           \<and> fst (snd (Reconcile cl r fc w)) = fst (snd ((?ss ! k) q))
           \<and> snd (snd (Reconcile cl r fc w)) = snd (snd (snd ((?ss ! k) q)))"
    if "fst (Reconcile cl r fc w) = Some err"
  proof -
    from that have "fst (runSteps ?ss ?p) = Some err" by (simp add: Reconcile_world)
    then have "runSteps ?ss ?p = (Some err, snd (runSteps ?ss ?p))" by (simp add: prod_eq_iff)
    from runSteps_abort [OF this] obtain k q where
      k: "k < length ?ss" "runSteps (take k ?ss) ?p = (None, q)"
      and stop: "(?ss ! k) q = (Some err, snd (runSteps ?ss ?p))" by blast
    show ?thesis
    proof (intro exI conjI)
      show "k < length ?ss" by (rule k(1))
      show "runSteps (take k ?ss) ?p = (None, q)" by (rule k(2))
      show "fst ((?ss ! k) q) = Some err" by (simp add: stop)
      show "fst (snd (Reconcile cl r fc w)) = fst (snd ((?ss ! k) q))"
        by (simp add: stop Reconcile_world)
      show "snd (snd (Reconcile cl r fc w)) = snd (snd (snd ((?ss ! k) q)))"
        by (simp add: stop Reconcile_world)
    qed
  qed
  have order: "sorted (map stepOf (newCalls w (snd (snd (Reconcile cl r fc w)))))"
    if inv: "ConsoleKind \<notin> mo_Kind ` set (managedObjects (nobjMngr r))
             \<and> ConsolePluginKind \<notin> mo_Kind ` set (managedObjects (nobjMngr r))"
  proof -
    have "issues (\<lambda>c. 1 \<le> stepOf c) (snd (snd ?p)) (snd (snd (snd (runSteps ?ss ?p))))
          \<and> sorted (map stepOf (newCalls (snd (snd ?p)) (snd (snd (snd (runSteps ?ss ?p))))))"
    proof (rule runSteps_sorted
            [where off = 1 and
              I = "\<lambda>p. ConsoleKind \<notin> mo_Kind ` set (managedObjects (nobjMngr (fst p)))
                     \<and> ConsolePluginKind \<notin> mo_Kind ` set (managedObjects (nobjMngr (fst p)))"])
      show "ConsoleKind \<notin> mo_Kind ` set (managedObjects (nobjMngr (fst ?p)))
            \<and> ConsolePluginKind \<notin> mo_Kind ` set (managedObjects (nobjMngr (fst ?p)))"
        using inv by simp
    qed (rule passSteps_in_order)
    then show ?thesis by (simp add: Reconcile_world)
  qed
  have digest: "dg5 = snd (b_configMap (passBuilder cl r fc))
        \<and> (?ss ! 5) (r5, dg5, w5) =
            (case reconcileDeployment cl r5 (passBuilder cl r fc) (fc_Spec fc)
                    (snd (b_configMap (passBuilder cl r fc))) w5 of
               (e, w') \<Rightarrow> (e, r5, dg5, w'))"
    if "runSteps (take 5 ?ss) ?p = (None, r5, dg5, w5)"
    using runSteps_take5_digest [OF that] by (simp add: passSteps_def deploymentStep_def)
  from abort order digest show ?thesis
    using Reconcile_runSteps [of cl r fc w] by blast
qed

text \<open>
  On the fresh cluster with a refused create of the deployment: the pass ends with that
  error after the calls of steps 1 to 6, the first five steps succeed and hand over the
  digest of the builder.
\<close>

theorem Reconcile_fixed_order_witness:
  "fst (Reconcile (exFresh\<lparr>outcome := exOutcome (isCreateOf DeploymentKind)\<rparr>) (exReconciler True)
          (exDesired True 9001 1 False) emptyWorld) = Some (ErrOther ''refused'')
   \<and> (\<exists>k<length (passSteps (exFresh\<lparr>outcome := exOutcome (isCreateOf DeploymentKind)\<rparr>)
                   (exReconciler True) (exDesired True 9001 1 False)).
        \<exists>q. runSteps (take k (passSteps (exFresh\<lparr>outcome := exOutcome (isCreateOf DeploymentKind)\<rparr>)
                   (exReconciler True) (exDesired True 9001 1 False)))
               (exReconciler True, [], emptyWorld) = (None, q)
           \<and> fst ((passSteps (exFresh\<lparr>outcome := exOutcome (isCreateOf DeploymentKind)\<rparr>)
                   (exReconciler True) (exDesired True 9001 1 False) ! k) q) = Some (ErrOther ''refused'')
           \<and> snd (snd (Reconcile (exFresh\<lparr>outcome := exOutcome (isCreateOf DeploymentKind)\<rparr>)
                   (exReconciler True) (exDesired True 9001 1 False) emptyWorld)) =
             snd (snd (snd ((passSteps (exFresh\<lparr>outcome := exOutcome (isCreateOf DeploymentKind)\<rparr>)
                   (exReconciler True) (exDesired True 9001 1 False) ! k) q))))
   \<and> ConsoleKind \<notin> mo_Kind ` set (managedObjects (nobjMngr (exReconciler True)))
   \<and> ConsolePluginKind \<notin> mo_Kind ` set (managedObjects (nobjMngr (exReconciler True)))
   \<and> sorted (map stepOf (newCalls emptyWorld
        (snd (snd (Reconcile (exFresh\<lparr>outcome := exOutcome (isCreateOf DeploymentKind)\<rparr>)
           (exReconciler True) (exDesired True 9001 1 False) emptyWorld)))))
   \<and> map stepOf (newCalls emptyWorld
        (snd (snd (Reconcile (exFresh\<lparr>outcome := exOutcome (isCreateOf DeploymentKind)\<rparr>)
           (exReconciler True) (exDesired True 9001 1 False) emptyWorld)))) =
       [1, 1, 1, 1, 1, 1, 2, 2, 3, 4, 4, 5, 6, 6]
   \<and> fst (runSteps (take 5 (passSteps (exFresh\<lparr>outcome := exOutcome (isCreateOf DeploymentKind)\<rparr>)
             (exReconciler True) (exDesired True 9001 1 False)))
           (exReconciler True, [], emptyWorld)) = None
   \<and> fst (snd (snd (runSteps (take 5 (passSteps (exFresh\<lparr>outcome := exOutcome (isCreateOf DeploymentKind)\<rparr>)
             (exReconciler True) (exDesired True 9001 1 False)))
           (exReconciler True, [], emptyWorld)))) = ''digest-1''"
proof -
  let ?cl = "exFresh\<lparr>outcome := exOutcome (isCreateOf DeploymentKind)\<rparr>"
  let ?r = "exReconciler True" and ?fc = "exDesired True 9001 1 False"
  let ?five = "runSteps (take 5 (passSteps ?cl ?r ?fc)) (?r, [], emptyWorld)"
  have err: "fst (Reconcile ?cl ?r ?fc emptyWorld) = Some (ErrOther ''refused'')"
    by (simp add: ex_defs step_defs)
  have inv: "ConsoleKind \<notin> mo_Kind ` set (managedObjects (nobjMngr ?r))
      \<and> ConsolePluginKind \<notin> mo_Kind ` set (managedObjects (nobjMngr ?r))"
    by (simp add: exReconciler_def NewReconciler_def NewNamespacedObjectManager_def
        AddManagedObject_def Let_def)
  have steps: "map stepOf (newCalls emptyWorld (snd (snd (Reconcile ?cl ?r ?fc emptyWorld)))) =
       [1, 1, 1, 1, 1, 1, 2, 2, 3, 4, 4, 5, 6, 6]"
    by (simp add: ex_defs step_defs)
  have none: "fst ?five = None"
    by (simp add: ex_defs step_defs pass_defs)
  then have five: "?five = (None, fst (snd ?five), fst (snd (snd ?five)), snd (snd (snd ?five)))"
    by (simp add: prod_eq_iff)
  have digest: "snd (b_configMap (passBuilder ?cl ?r ?fc)) = ''digest-1''"
    by (simp add: ex_defs passBuilder_def)
  note inst = Reconcile_fixed_order [where cl = ?cl and r = ?r and fc = ?fc and w = emptyWorld
      and err = "ErrOther ''refused''" and ?r5.0 = "fst (snd ?five)" and ?dg5.0 = "fst (snd (snd ?five))"
      and ?w5.0 = "snd (snd (snd ?five))"]
  from inst err have abort: "\<exists>k<length (passSteps ?cl ?r ?fc).
        \<exists>q. runSteps (take k (passSteps ?cl ?r ?fc)) (?r, [], emptyWorld) = (None, q)
           \<and> fst ((passSteps ?cl ?r ?fc ! k) q) = Some (ErrOther ''refused'')
           \<and> snd (snd (Reconcile ?cl ?r ?fc emptyWorld)) =
             snd (snd (snd ((passSteps ?cl ?r ?fc ! k) q)))"
    by blast
  from inst inv have ordered: "sorted (map stepOf (newCalls emptyWorld
        (snd (snd (Reconcile ?cl ?r ?fc emptyWorld)))))"
    by blast
  from inst five have "fst (snd (snd ?five)) = snd (b_configMap (passBuilder ?cl ?r ?fc))"
    by blast
  with digest have dg: "fst (snd (snd ?five)) = ''digest-1''" by simp
  from err abort inv ordered steps none dg show ?thesis by blast
qed

subsection \<open>Absent resources\<close>

text \<open>
  Claim C7 as stated fails for the autoscaler: it is recorded absent, autoscaling is
  disabled, and the autoscaler step makes no call at all, so no create.
\<close>

theorem absent_autoscaler_not_created_when_disabled:
  "\<not> Exists (nobjMngr (exReconciler True)) HPAKind
   \<and> reconcileHPA exFresh (exReconciler True)
        (exBuilder ''netobserv'' ''plugin:v1'' (exSpec True 9001 1 False))
        (exSpec True 9001 1 False) emptyWorld = (None, emptyWorld)
   \<and> createsOf HPAKind (newCalls emptyWorld (snd (reconcileHPA exFresh (exReconciler True)
        (exBuilder ''netobserv'' ''plugin:v1'' (exSpec True 9001 1 False))
        (exSpec True 9001 1 False) emptyWorld))) = []"
  by (simp add: ex_defs step_defs)

text \<open>
  Claim C7, amended. For a service account, a config map and a service recorded absent,
  the step of that kind issues exactly one create and no update of it, and does the same
  whatever the cached object holds. So it does for the deployment when the certificate
  annotation succeeds, for the autoscaler when autoscaling is enabled, and for the
  service monitor when the cluster has that API and no write of the service failed;
  for these the result does not depend on the comparator either.
\<close>

theorem absent_resource_is_created:
  "(\<not> Exists (nobjMngr r) ServiceAccountKind \<longrightarrow>
      newCalls w (snd (reconcilePermissions cl r b w)) =
        [CreateOwned (ServiceAccountObj (b_serviceAccount b))]
      \<and> reconcilePermissions cl (r\<lparr>owned := ow\<rparr>) b w = reconcilePermissions cl r b w)
   \<and> (\<not> Exists (nobjMngr r) ConfigMapKind \<longrightarrow>
      newCalls w (snd (reconcileConfigMap cl r b desired w)) =
        [CreateOwned (ConfigMapObj (fst (b_configMap b)))]
      \<and> reconcileConfigMap cl (r\<lparr>owned := ow\<rparr>) b desired w = reconcileConfigMap cl r b desired w)
   \<and> (\<not> Exists (nobjMngr r) DeploymentKind
        \<and> certAnnotate cl (dep_Template (b_deployment b dg)) = Inr t \<longrightarrow>
      newCalls w (snd (reconcileDeployment cl r b desired dg w)) =
        [AnnotatePod (dep_Template (b_deployment b dg)),
         CreateOwned (DeploymentObj ((b_deployment b dg)\<lparr>dep_Template := t\<rparr>))]
      \<and> reconcileDeployment (cl\<lparr>DeploymentChanged := changed\<rparr>) (r\<lparr>owned := ow\<rparr>) b desired dg w =
        reconcileDeployment cl r b desired dg w)
   \<and> (\<not> Exists (nobjMngr r) ServiceKind \<longrightarrow>
      createsOf ServiceKind (newCalls w (snd (reconcileService cl r b desired w))) =
        [CreateOwned (ServiceObj (b_service b None))]
      \<and> updatesOf ServiceKind (newCalls w (snd (reconcileService cl r b desired w))) = []
      \<and> reconcileService cl (r\<lparr>owned := (owned r)\<lparr>own_service := svc\<rparr>\<rparr>) b desired w =
        reconcileService cl r b desired w)
   \<and> (\<not> Exists (nobjMngr r) HPAKind
        \<and> \<not> HPADisabled (cp_Autoscaler (spec_ConsolePlugin desired)) \<longrightarrow>
      newCalls w (snd (reconcileHPA cl r b desired w)) = [CreateOwned (HPAObj (b_autoScaler b))]
      \<and> reconcileHPA (cl\<lparr>AutoScalerChanged := hpaChanged\<rparr>) (r\<lparr>owned := ow\<rparr>) b desired w =
        reconcileHPA cl r b desired w)
   \<and> (\<not> Exists (nobjMngr r) ServiceMonitorKind \<and> HasSvcMonitor (availableAPIs r)
        \<and> (\<forall>c. touches ServiceKind c \<longrightarrow> outcome cl c = None) \<longrightarrow>
      createsOf ServiceMonitorKind (newCalls w (snd (reconcileService cl r b desired w))) =
        [CreateOwned (ServiceMonitorObj (b_serviceMonitor b))]
      \<and> updatesOf ServiceMonitorKind (newCalls w (snd (reconcileService cl r b desired w))) = []
      \<and> reconcileService (cl\<lparr>ServiceMonitorChanged := smChanged\<rparr>)
          (r\<lparr>owned := (owned r)\<lparr>own_serviceMonitor := sm\<rparr>\<rparr>) b desired w =
        reconcileService cl r b desired w)"
proof -
  have sa: "newCalls w (snd (reconcilePermissions cl r b w)) =
        [CreateOwned (ServiceAccountObj (b_serviceAccount b))]
      \<and> reconcilePermissions cl (r\<lparr>owned := ow\<rparr>) b w = reconcilePermissions cl r b w"
    if "\<not> Exists (nobjMngr r) ServiceAccountKind"
    using that by (simp add: reconcilePermissions_def invoke_def newCalls_def)
  have cm: "newCalls w (snd (reconcileConfigMap cl r b desired w)) =
        [CreateOwned (ConfigMapObj (fst (b_configMap b)))]
      \<and> reconcileConfigMap cl (r\<lparr>owned := ow\<rparr>) b desired w = reconcileConfigMap cl r b desired w"
    if "\<not> Exists (nobjMngr r) ConfigMapKind"
    using that
    by (auto simp: reconcileConfigMap_def invoke_def newCalls_def split: prod.splits option.splits)
  have dep: "newCalls w (snd (reconcileDeployment cl r b desired dg w)) =
        [AnnotatePod (dep_Template (b_deployment b dg)),
         CreateOwned (DeploymentObj ((b_deployment b dg)\<lparr>dep_Template := t\<rparr>))]
      \<and> reconcileDeployment (cl\<lparr>DeploymentChanged := changed\<rparr>) (r\<lparr>owned := ow\<rparr>) b desired dg w =
        reconcileDeployment cl r b desired dg w"
    if "\<not> Exists (nobjMngr r) DeploymentKind"
      and "certAnnotate cl (dep_Template (b_deployment b dg)) = Inr t"
    using that
    by (simp add: reconcileDeployment_def reconcileDeployment_body_def invoke_def newCalls_def
        trace_LogIfNeeded Let_def)
  have svc: "createsOf ServiceKind (newCalls w (snd (reconcileService cl r b desired w))) =
        [CreateOwned (ServiceObj (b_service b None))]
      \<and> updatesOf ServiceKind (newCalls w (snd (reconcileService cl r b desired w))) = []
      \<and> reconcileService cl (r\<lparr>owned := (owned r)\<lparr>own_service := svc\<rparr>\<rparr>) b desired w =
        reconcileService cl r b desired w"
    if "\<not> Exists (nobjMngr r) ServiceKind"
    using that
    by (auto simp: reconcileService_def reconcileService_body_def GenericReconcile_def invoke_def
        newCalls_def createsOf_def updatesOf_def trace_LogIfNeeded
        split: option.splits prod.splits bool.splits)
  have hpa: "newCalls w (snd (reconcileHPA cl r b desired w)) = [CreateOwned (HPAObj (b_autoScaler b))]
      \<and> reconcileHPA (cl\<lparr>AutoScalerChanged := hpaChanged\<rparr>) (r\<lparr>owned := ow\<rparr>) b desired w =
        reconcileHPA cl r b desired w"
    if "\<not> Exists (nobjMngr r) HPAKind"
      and "\<not> HPADisabled (cp_Autoscaler (spec_ConsolePlugin desired))"
    using that
    by (simp add: reconcileHPA_def reconcileHPA_body_def invoke_def newCalls_def trace_LogIfNeeded)
  have sm: "createsOf ServiceMonitorKind (newCalls w (snd (reconcileService cl r b desired w))) =
        [CreateOwned (ServiceMonitorObj (b_serviceMonitor b))]
      \<and> updatesOf ServiceMonitorKind (newCalls w (snd (reconcileService cl r b desired w))) = []
      \<and> reconcileService (cl\<lparr>ServiceMonitorChanged := smChanged\<rparr>)
          (r\<lparr>owned := (owned r)\<lparr>own_serviceMonitor := sm\<rparr>\<rparr>) b desired w =
        reconcileService cl r b desired w"
    if "\<not> Exists (nobjMngr r) ServiceMonitorKind" and "HasSvcMonitor (availableAPIs r)"
      and "\<forall>c. touches ServiceKind c \<longrightarrow> outcome cl c = None"
    using that
    by (auto simp: reconcileService_def reconcileService_body_def GenericReconcile_def invoke_def
        newCalls_def createsOf_def updatesOf_def trace_LogIfNeeded
        split: option.splits prod.splits bool.splits)
  from sa cm dep svc hpa sm show ?thesis by blast
qed

text \<open>On the fresh cluster with autoscaling enabled every kind is created once.\<close>

theorem absent_resource_is_created_witness:
  "\<not> Exists (nobjMngr (exReconciler True)) ServiceAccountKind
   \<and> \<not> Exists (nobjMngr (exReconciler True)) ConfigMapKind
   \<and> \<not> Exists (nobjMngr (exReconciler True)) DeploymentKind
   \<and> \<not> Exists (nobjMngr (exReconciler True)) ServiceKind
   \<and> \<not> Exists (nobjMngr (exReconciler True)) HPAKind
   \<and> \<not> Exists (nobjMngr (exReconciler True)) ServiceMonitorKind
   \<and> HasSvcMonitor (availableAPIs (exReconciler True))
   \<and> \<not> HPADisabled (cp_Autoscaler (spec_ConsolePlugin (exSpec True 9001 1 True)))
   \<and> newCalls emptyWorld (snd (reconcilePermissions exFresh (exReconciler True)
        (exBuilder ''netobserv'' ''plugin:v1'' (exSpec True 9001 1 True)) emptyWorld)) =
       [CreateOwned (ServiceAccountObj (exMeta ''plugin'' ''netobserv''))]
   \<and> newCalls emptyWorld (snd (reconcileConfigMap exFresh (exReconciler True)
        (exBuilder ''netobserv'' ''plugin:v1'' (exSpec True 9001 1 True)) (exSpec True 9001 1 True)
        emptyWorld)) =
       [CreateOwned (ConfigMapObj (exConfigMap ''netobserv''))]
   \<and> newCalls emptyWorld (snd (reconcileDeployment exFresh (exReconciler True)
        (exBuilder ''netobserv'' ''plugin:v1'' (exSpec True 9001 1 True)) (exSpec True 9001 1 True)
        ''digest-1'' emptyWorld)) =
       [AnnotatePod (dep_Template (exDeployment ''netobserv'' ''plugin:v1'' 1 ''digest-1'')),
        CreateOwned (DeploymentObj (exAnnotated (exDeployment ''netobserv'' ''plugin:v1'' 1 ''digest-1'')))]
   \<and> createsOf ServiceKind (newCalls emptyWorld (snd (reconcileService exFresh (exReconciler True)
        (exBuilder ''netobserv'' ''plugin:v1'' (exSpec True 9001 1 True)) (exSpec True 9001 1 True)
        emptyWorld))) =
       [CreateOwned (ServiceObj (exService ''netobserv'' 9001))]
   \<and> newCalls emptyWorld (snd (reconcileHPA exFresh (exReconciler True)
        (exBuilder ''netobserv'' ''plugin:v1'' (exSpec True 9001 1 True)) (exSpec True 9001 1 True)
        emptyWorld)) =
       [CreateOwned (HPAObj (exAutoScaler ''netobserv''
          \<lparr>as_Enabled = True, as_MinReplicas = 1, as_MaxReplicas = 3\<rparr>))]
   \<and> createsOf ServiceMonitorKind (newCalls emptyWorld (snd (reconcileService exFresh
        (exReconciler True) (exBuilder ''netobserv'' ''plugin:v1'' (exSpec True 9001 1 True))
        (exSpec True 9001 1 True) emptyWorld))) =
       [CreateOwned (ServiceMonitorObj (exMeta ''plugin'' ''netobserv''))]"
proof -
  let ?r = "exReconciler True" and ?d = "exSpec True 9001 1 True"
  let ?b = "exBuilder ''netobserv'' ''plugin:v1'' (exSpec True 9001 1 True)"
  have absent: "\<not> Exists (nobjMngr ?r) ServiceAccountKind" "\<not> Exists (nobjMngr ?r) ConfigMapKind"
    "\<not> Exists (nobjMngr ?r) DeploymentKind" "\<not> Exists (nobjMngr ?r) ServiceKind"
    "\<not> Exists (nobjMngr ?r) HPAKind" "\<not> Exists (nobjMngr ?r) ServiceMonitorKind"
    by (simp_all add: exReconciler_def NewReconciler_def NewNamespacedObjectManager_def
        AddManagedObject_def HasSvcMonitor_def Exists_def Let_def)
  have sm: "HasSvcMonitor (availableAPIs ?r)"
    by (simp add: exReconciler_def NewReconciler_def HasSvcMonitor_def Let_def)
  have on: "\<not> HPADisabled (cp_Autoscaler (spec_ConsolePlugin ?d))"
    by (simp add: exSpec_def HPADisabled_def)
  have ann: "certAnnotate exFresh (dep_Template (b_deployment ?b ''digest-1'')) =
      Inr (dep_Template (exAnnotated (exDeployment ''netobserv'' ''plugin:v1'' 1 ''digest-1'')))"
    by (simp add: ex_defs)
  have ok: "\<forall>c. touches ServiceKind c \<longrightarrow> outcome exFresh c = None"
    by (simp add: exFresh_def)
  have built: "b_serviceAccount ?b = exMeta ''plugin'' ''netobserv''"
    "fst (b_configMap ?b) = exConfigMap ''netobserv''"
    "b_deployment ?b ''digest-1'' = exDeployment ''netobserv'' ''plugin:v1'' 1 ''digest-1''"
    "(exDeployment ''netobserv'' ''plugin:v1'' 1 ''digest-1'')
       \<lparr>dep_Template := dep_Template (exAnnotated (exDeployment ''netobserv'' ''plugin:v1'' 1 ''digest-1''))\<rparr> =
     exAnnotated (exDeployment ''netobserv'' ''plugin:v1'' 1 ''digest-1'')"
    "b_service ?b None = exService ''netobserv'' 9001"
    "b_autoScaler ?b = exAutoScaler ''netobserv'' \<lparr>as_Enabled = True, as_MinReplicas = 1, as_MaxReplicas = 3\<rparr>"
    "b_serviceMonitor ?b = exMeta ''plugin'' ''netobserv''"
    by (simp_all add: exBuilder_def exSpec_def exAnnotated_def)
  from absent_resource_is_created [where r = ?r and cl = exFresh and b = ?b and desired = ?d
      and w = emptyWorld and dg = "''digest-1''"
      and t = "dep_Template (exAnnotated (exDeployment ''netobserv'' ''plugin:v1'' 1 ''digest-1''))"]
    absent sm on ann ok
  have "newCalls emptyWorld (snd (reconcilePermissions exFresh ?r ?b emptyWorld)) =
       [CreateOwned (ServiceAccountObj (exMeta ''plugin'' ''netobserv''))]"
    "newCalls emptyWorld (snd (reconcileConfigMap exFresh ?r ?b ?d emptyWorld)) =
       [CreateOwned (ConfigMapObj (exConfigMap ''netobserv''))]"
    "newCalls emptyWorld (snd (reconcileDeployment exFresh ?r ?b ?d ''digest-1'' emptyWorld)) =
       [AnnotatePod (dep_Template (exDeployment ''netobserv'' ''plugin:v1'' 1 ''digest-1'')),
        CreateOwned (DeploymentObj (exAnnotated (exDeployment ''netobserv'' ''plugin:v1'' 1 ''digest-1'')))]"
    "createsOf ServiceKind (newCalls emptyWorld (snd (reconcileService exFresh ?r ?b ?d emptyWorld))) =
       [CreateOwned (ServiceObj (exService ''netobserv'' 9001))]"
    "newCalls emptyWorld (snd (reconcileHPA exFresh ?r ?b ?d emptyWorld)) =
       [CreateOwned (HPAObj (exAutoScaler ''netobserv''
          \<lparr>as_Enabled = True, as_MinReplicas = 1, as_MaxReplicas = 3\<rparr>))]"
    "createsOf ServiceMonitorKind (newCalls emptyWorld (snd (reconcileService exFresh ?r ?b ?d emptyWorld))) =
       [CreateOwned (ServiceMonitorObj (exMeta ''plugin'' ''netobserv''))]"
    by (simp_all add: built)
  with absent sm on show ?thesis by blast
qed

subsection \<open>The service monitor\<close>

lemma NewReconciler_kinds:
  "map mo_Kind (managedObjects (nobjMngr (NewReconciler cl ns prevNS img apis))) =
     [DeploymentKind, ServiceKind, HPAKind, ServiceAccountKind, ConfigMapKind]
     @ (if HasSvcMonitor apis then [ServiceMonitorKind] else [])"
  by (simp add: NewReconciler_def NewNamespacedObjectManager_def AddManagedObject_def Let_def)

text \<open>
  Claim C8. When the cluster has no service-monitor API, \<open>NewReconciler\<close> does not
  register the service-monitor kind. A pass of a reconciler without that API and
  without that kind registered makes no call that reads, creates, updates or deletes a
  service monitor, and leaves the reconciler so, whence the same holds in every later
  pass.
\<close>

theorem service_monitor_gated:
  "(\<not> HasSvcMonitor apis \<longrightarrow>
      ServiceMonitorKind \<notin> mo_Kind ` set (managedObjects (nobjMngr (NewReconciler cl0 ns prevNS img apis)))
      \<and> \<not> HasSvcMonitor (availableAPIs (NewReconciler cl0 ns prevNS img apis)))
   \<and> (\<not> HasSvcMonitor (availableAPIs r)
        \<and> ServiceMonitorKind \<notin> mo_Kind ` set (managedObjects (nobjMngr r)) \<longrightarrow>
      list_all (\<lambda>c. \<not> touches ServiceMonitorKind c) (newCalls w (snd (snd (Reconcile cl r fc w))))
      \<and> \<not> HasSvcMonitor (availableAPIs (fst (snd (Reconcile cl r fc w))))
      \<and> ServiceMonitorKind \<notin> mo_Kind ` set (managedObjects (nobjMngr (fst (snd (Reconcile cl r fc w))))))"
proof -
  let ?new = "NewReconciler cl0 ns prevNS img apis"
  have new: "ServiceMonitorKind \<notin> mo_Kind ` set (managedObjects (nobjMngr ?new))
      \<and> \<not> HasSvcMonitor (availableAPIs ?new)"
    if off: "\<not> HasSvcMonitor apis"
  proof -
    have "ServiceMonitorKind \<notin> set (map mo_Kind (managedObjects (nobjMngr ?new)))"
      unfolding NewReconciler_kinds using off by simp
    moreover have "availableAPIs ?new = apis"
      by (simp add: NewReconciler_def Let_def)
    ultimately show ?thesis using off by simp
  qed
  let ?p = "(r, [], w) :: pass"
  have pass: "list_all (\<lambda>c. \<not> touches ServiceMonitorKind c) (newCalls w (snd (snd (Reconcile cl r fc w))))
      \<and> \<not> HasSvcMonitor (availableAPIs (fst (snd (Reconcile cl r fc w))))
      \<and> ServiceMonitorKind \<notin> mo_Kind ` set (managedObjects (nobjMngr (fst (snd (Reconcile cl r fc w)))))"
    if inv: "\<not> HasSvcMonitor (availableAPIs r)
        \<and> ServiceMonitorKind \<notin> mo_Kind ` set (managedObjects (nobjMngr r))"
  proof -
    have "issues (\<lambda>c. \<not> touches ServiceMonitorKind c) (snd (snd ?p))
            (snd (snd (snd (runSteps (passSteps cl r fc) ?p))))
          \<and> (\<not> HasSvcMonitor (availableAPIs (fst (snd (runSteps (passSteps cl r fc) ?p))))
             \<and> ServiceMonitorKind \<notin>
                 mo_Kind ` set (managedObjects (nobjMngr (fst (snd (runSteps (passSteps cl r fc) ?p))))))"
    proof (rule runSteps_issues
        [where I = "\<lambda>p. \<not> HasSvcMonitor (availableAPIs (fst p))
                     \<and> ServiceMonitorKind \<notin> mo_Kind ` set (managedObjects (nobjMngr (fst p)))"])
      show "\<not> HasSvcMonitor (availableAPIs (fst ?p))
            \<and> ServiceMonitorKind \<notin> mo_Kind ` set (managedObjects (nobjMngr (fst ?p)))"
        using inv by simp
    qed (rule passSteps_gated)
    then show ?thesis
      using issues_newCalls [of "\<lambda>c. \<not> touches ServiceMonitorKind c" w
          "snd (snd (snd (runSteps (passSteps cl r fc) ?p)))"]
      by (simp add: Reconcile_world)
  qed
  from new pass show ?thesis by blast
qed

text \<open>A pass on the settled cluster without the API: calls, none on a service monitor.\<close>

theorem service_monitor_gated_witness:
  "\<not> HasSvcMonitor \<lparr>api_svcMonitor = False\<rparr>
   \<and> ServiceMonitorKind \<notin> mo_Kind ` set (managedObjects (nobjMngr (exReconciler False)))
   \<and> \<not> HasSvcMonitor (availableAPIs (exReconciler False))
   \<and> list_all (\<lambda>c. \<not> touches ServiceMonitorKind c)
        (newCalls emptyWorld (snd (snd (Reconcile exSettled (exReconciler False)
           (exDesired True 9001 1 False) emptyWorld))))
   \<and> newCalls emptyWorld (snd (snd (Reconcile exSettled (exReconciler False)
           (exDesired True 9001 1 False) emptyWorld))) \<noteq> []"
proof -
  have off: "\<not> HasSvcMonitor \<lparr>api_svcMonitor = False\<rparr>"
    by (simp add: HasSvcMonitor_def)
  note inst = service_monitor_gated [where apis = "\<lparr>api_svcMonitor = False\<rparr>" and ?cl0.0 = exFresh
      and ns = "''netobserv''" and prevNS = "[]" and img = "''plugin:v1''"
      and r = "exReconciler False" and cl = exSettled and fc = "exDesired True 9001 1 False"
      and w = emptyWorld]
  from inst off have new: "ServiceMonitorKind \<notin> mo_Kind ` set (managedObjects (nobjMngr (exReconciler False)))"
    "\<not> HasSvcMonitor (availableAPIs (exReconciler False))"
    unfolding exReconciler_def by blast+
  with inst have pass: "list_all (\<lambda>c. \<not> touches ServiceMonitorKind c)
        (newCalls emptyWorld (snd (snd (Reconcile exSettled (exReconciler False)
           (exDesired True 9001 1 False) emptyWorld))))"
    by blast
  have calls: "newCalls emptyWorld (snd (snd (Reconcile exSettled (exReconciler False)
           (exDesired True 9001 1 False) emptyWorld))) \<noteq> []"
    by (simp add: ex_defs step_defs)
  from off new pass calls show ?thesis by blast
qed

subsection \<open>The plugin registration resource\<close>

text \<open>
  Claim C9. When the cluster-scoped plugin registration resource exists,
  \<open>reconcilePlugin\<close> issues one update of it if its service port differs from the
  desired port, and none otherwise; \<open>pluginNeedsUpdate\<close> does not depend on any other
  field of the resource, its service namespace included.
\<close>

theorem reconcilePlugin_update_iff_port_differs:
  "(getConsolePlugin cl = Inr oldPlg \<longrightarrow>
      newCalls w (snd (reconcilePlugin cl b desired w)) =
        ClientGet ConsolePluginKind #
        (if plg_ServicePort oldPlg \<noteq> cp_Port (spec_ConsolePlugin desired)
         then [UpdateOwned (ConsolePluginObj oldPlg) (ConsolePluginObj (b_consolePlugin b))]
         else []))
   \<and> pluginNeedsUpdate
        (plg\<lparr>plg_Meta := meta, plg_DisplayName := dn, plg_ServiceName := sn,
             plg_ServiceNamespace := ns\<rparr>) pspec =
      pluginNeedsUpdate plg pspec"
  by (auto simp: reconcilePlugin_def reconcilePlugin_write_def pluginNeedsUpdate_def invoke_def
      newCalls_def split: prod.splits option.splits)

text \<open>
  A changed port gives an update; a builder for another namespace, with the port
  unchanged, gives none.
\<close>

theorem reconcilePlugin_update_iff_port_differs_witness:
  "getConsolePlugin exSettled = Inr (exConsolePlugin ''netobserv'' 9001)
   \<and> newCalls emptyWorld (snd (reconcilePlugin exSettled
         (exBuilder ''netobserv'' ''plugin:v1'' (exSpec True 9002 1 False))
         (exSpec True 9002 1 False) emptyWorld)) =
       [ClientGet ConsolePluginKind,
        UpdateOwned (ConsolePluginObj (exConsolePlugin ''netobserv'' 9001))
          (ConsolePluginObj (exConsolePlugin ''netobserv'' 9002))]
   \<and> b_consolePlugin (exBuilder ''elsewhere'' ''plugin:v1'' (exSpec True 9001 1 False)) \<noteq>
       exConsolePlugin ''netobserv'' 9001
   \<and> newCalls emptyWorld (snd (reconcilePlugin exSettled
         (exBuilder ''elsewhere'' ''plugin:v1'' (exSpec True 9001 1 False))
         (exSpec True 9001 1 False) emptyWorld)) = [ClientGet ConsolePluginKind]"
proof -
  have g: "getConsolePlugin exSettled = Inr (exConsolePlugin ''netobserv'' 9001)"
    by (simp add: exSettled_def)
  have ns: "b_consolePlugin (exBuilder ''elsewhere'' ''plugin:v1'' (exSpec True 9001 1 False)) \<noteq>
       exConsolePlugin ''netobserv'' 9001"
    by (simp add: exBuilder_def exConsolePlugin_def)
  note inst = reconcilePlugin_update_iff_port_differs [where w = emptyWorld and cl = exSettled
      and oldPlg = "exConsolePlugin ''netobserv'' 9001"]
  from inst [where b = "exBuilder ''netobserv'' ''plugin:v1'' (exSpec True 9002 1 False)"
      and desired = "exSpec True 9002 1 False"] g
  have a: "newCalls emptyWorld (snd (reconcilePlugin exSettled
         (exBuilder ''netobserv'' ''plugin:v1'' (exSpec True 9002 1 False))
         (exSpec True 9002 1 False) emptyWorld)) =
       [ClientGet ConsolePluginKind,
        UpdateOwned (ConsolePluginObj (exConsolePlugin ''netobserv'' 9001))
          (ConsolePluginObj (exConsolePlugin ''netobserv'' 9002))]"
    by (simp add: exBuilder_def exSpec_def exConsolePlugin_def)
  from inst [where b = "exBuilder ''elsewhere'' ''plugin:v1'' (exSpec True 9001 1 False)"
      and desired = "exSpec True 9001 1 False"] g
  have b: "newCalls emptyWorld (snd (reconcilePlugin exSettled
         (exBuilder ''elsewhere'' ''plugin:v1'' (exSpec True 9001 1 False))
         (exSpec True 9001 1 False) emptyWorld)) = [ClientGet ConsolePluginKind]"
    by (simp add: exSpec_def exConsolePlugin_def)
  from g a ns b show ?thesis by blast
qed

subsection \<open>The autoscaler step when autoscaling is disabled\<close>

text \<open>
  Claim C10. When autoscaling is disabled, \<open>reconcileHPA\<close> returns nil, also when the
  cluster answers the delete with an error; it issues no create and no update of the
  autoscaler; and the error of the pass is the error of its first seven steps, so the
  autoscaler step cannot make the pass fail.
\<close>

theorem reconcileHPA_disabled_returns_nil:
  "HPADisabled (cp_Autoscaler (spec_ConsolePlugin (fc_Spec fc))) \<longrightarrow>
     fst (reconcileHPA cl r b (fc_Spec fc) w) = None
     \<and> fst (reconcileHPA (cl\<lparr>outcome := (outcome cl)(ClientDelete HPAKind := Some err)\<rparr>) r b
              (fc_Spec fc) w) = None
     \<and> createsOf HPAKind (newCalls w (snd (reconcileHPA cl r b (fc_Spec fc) w))) = []
     \<and> updatesOf HPAKind (newCalls w (snd (reconcileHPA cl r b (fc_Spec fc) w))) = []
     \<and> fst (Reconcile cl r fc w) = fst (runSteps (take 7 (passSteps cl r fc)) (r, [], w))"
proof
  assume off: "HPADisabled (cp_Autoscaler (spec_ConsolePlugin (fc_Spec fc)))"
  note hpa = reconcileHPA_disabled [OF off]
  have last: "fst (autoscalerStep cl b' (fc_Spec fc) p) = None" for b' p
    by (simp add: autoscalerStep_def split_beta hpa)
  have last': "autoscalerStep cl b' (fc_Spec fc) p \<noteq> (Some e, q)" for b' p e q
    using last [of b' p] by (metis fst_conv option.distinct(1))
  have "fst (runSteps (passSteps cl r fc) (r, [], w)) =
        fst (runSteps (take 7 (passSteps cl r fc)) (r, [], w))"
    by (subst passSteps_last, subst runSteps_append)
      (auto simp: last' split: prod.splits option.splits)
  then show "fst (reconcileHPA cl r b (fc_Spec fc) w) = None
     \<and> fst (reconcileHPA (cl\<lparr>outcome := (outcome cl)(ClientDelete HPAKind := Some err)\<rparr>) r b
              (fc_Spec fc) w) = None
     \<and> createsOf HPAKind (newCalls w (snd (reconcileHPA cl r b (fc_Spec fc) w))) = []
     \<and> updatesOf HPAKind (newCalls w (snd (reconcileHPA cl r b (fc_Spec fc) w))) = []
     \<and> fst (Reconcile cl r fc w) = fst (runSteps (take 7 (passSteps cl r fc)) (r, [], w))"
    by (simp add: hpa Reconcile_world newCalls_def createsOf_def updatesOf_def)
qed

text \<open>
  The autoscaler exists and its delete is refused: the delete is in the trace and the
  pass returns nil.
\<close>

theorem reconcileHPA_disabled_returns_nil_witness:
  "HPADisabled (cp_Autoscaler (spec_ConsolePlugin (fc_Spec (exDesired True 9001 1 False))))
   \<and> outcome (exSettled\<lparr>getHPA := Inr (own_hpa zeroOwned),
                         outcome := exOutcome (\<lambda>c. c = ClientDelete HPAKind)\<rparr>)
        (ClientDelete HPAKind) = Some (ErrOther ''refused'')
   \<and> ClientDelete HPAKind \<in> set (newCalls emptyWorld (snd (snd (Reconcile
        (exSettled\<lparr>getHPA := Inr (own_hpa zeroOwned),
                    outcome := exOutcome (\<lambda>c. c = ClientDelete HPAKind)\<rparr>)
        (exReconciler True) (exDesired True 9001 1 False) emptyWorld))))
   \<and> fst (Reconcile
        (exSettled\<lparr>getHPA := Inr (own_hpa zeroOwned),
                    outcome := exOutcome (\<lambda>c. c = ClientDelete HPAKind)\<rparr>)
        (exReconciler True) (exDesired True 9001 1 False) emptyWorld) = None
   \<and> fst (reconcileHPA exSettled exFetched
        (exBuilder ''netobserv'' ''plugin:v1'' (exSpec True 9001 1 False))
        (fc_Spec (exDesired True 9001 1 False)) emptyWorld) = None"
proof -
  let ?cl = "exSettled\<lparr>getHPA := Inr (own_hpa zeroOwned),
                       outcome := exOutcome (\<lambda>c. c = ClientDelete HPAKind)\<rparr>"
  let ?fc = "exDesired True 9001 1 False"
  have off: "HPADisabled (cp_Autoscaler (spec_ConsolePlugin (fc_Spec ?fc)))"
    by (simp add: exDesired_def exSpec_def HPADisabled_def)
  have fails: "outcome ?cl (ClientDelete HPAKind) = Some (ErrOther ''refused'')"
    by (simp add: exOutcome_def)
  have deleted: "ClientDelete HPAKind \<in> set (newCalls emptyWorld (snd (snd (Reconcile ?cl
      (exReconciler True) ?fc emptyWorld))))"
    by (simp add: ex_defs step_defs)
  have seven: "fst (runSteps (take 7 (passSteps ?cl (exReconciler True) ?fc))
      (exReconciler True, [], emptyWorld)) = None"
    by (simp add: ex_defs step_defs pass_defs)
  from reconcileHPA_disabled_returns_nil [where fc = ?fc and cl = ?cl and r = "exReconciler True"
      and w = emptyWorld] off seven
  have pass: "fst (Reconcile ?cl (exReconciler True) ?fc emptyWorld) = None"
    by simp
  from reconcileHPA_disabled_returns_nil [where fc = ?fc and cl = exSettled and r = exFetched
      and w = emptyWorld and b = "exBuilder ''netobserv'' ''plugin:v1'' (exSpec True 9001 1 False)"] off
  have step: "fst (reconcileHPA exSettled exFetched
        (exBuilder ''netobserv'' ''plugin:v1'' (exSpec True 9001 1 False)) (fc_Spec ?fc) emptyWorld) = None"
    by blast
  from off fails deleted pass step show ?thesis by blast
qed

end
